theory Spec2Isabelle
  imports Complex_Main
begin

section \<open>Mezzanine configurator: data model\<close>

text \<open>
  The TypeScript sources compute with JavaScript numbers. They are embedded here first over
  exact rationals (\<^typ>\<open>rat\<close>): millimetre dimensions, quantities and metre lengths are
  finite decimal numbers, and \<open>Math.floor\<close> is \<^const>\<open>floor\<close>. That embedding serves the
  properties that do not depend on rounding. The functions of the configuration panel and of
  the pricing module are embedded a second time with the rounding of binary64 numbers, for the
  properties that depend on what the resolver floors and compares. The value \<open>NaN\<close> is
  outside both models.

  \<open>types/index.ts\<close>: an \<open>Accessory\<close> is one struct with an \<open>id\<close>, a \<open>type\<close> tag, a
  \<open>quantity\<close> and three optional kind-specific fields. The stair type is kept as the string
  the code inspects with \<open>includes\<close>; the pallet-gate width is one of the three literals of
  \<open>PalletGateWidth\<close>. The fields \<open>id\<close>, \<open>type\<close> and \<open>length\<close> are called
  \<open>acc_id\<close>, \<open>acc_type\<close> and \<open>len\<close> here.

  A division by zero yields \<open>Infinity\<close> or \<open>NaN\<close> in the source and 0 in HOL. The resolver
  divides by a railing's quantity and length only after it has found the product of the two
  greater than a positive number, and by a new quantity that is at least 1; the walker divides
  by the length of the edge the cursor is on, and an edge of length 0 is outside this model.
\<close>

datatype acc_type = Stairs | Railings | PalletGate

datatype pallet_gate_width = W2000mm | W2500mm | W3000mm

record accessory =
  acc_id :: string
  acc_type :: acc_type
  quantity :: rat
  stairType :: "string option"
  len :: "rat option"
  width :: "pallet_gate_width option"

record config =
  cfg_length :: rat
  cfg_width :: rat
  cfg_height :: rat
  loadCapacity :: nat
  accessories :: "accessory list"

subsection \<open>String and number helpers of the host language\<close>

text \<open>\<open>s.startsWith(sub)\<close> and \<open>s.includes(sub)\<close> on strings.\<close>

fun starts_with :: "string \<Rightarrow> string \<Rightarrow> bool" where
  "starts_with s [] = True"
| "starts_with [] (c # cs) = False"
| "starts_with (d # ds) (c # cs) = (d = c \<and> starts_with ds cs)"

fun str_includes :: "string \<Rightarrow> string \<Rightarrow> bool" where
  "str_includes [] sub = (sub = [])"
| "str_includes (d # ds) sub = (starts_with (d # ds) sub \<or> str_includes ds sub)"

text \<open>\<open>a.stairType?.includes(label)\<close>: an absent stair type gives \<open>undefined\<close>, which is falsy.\<close>

definition stairType_includes :: "accessory \<Rightarrow> string \<Rightarrow> bool" where
  "stairType_includes a label = (case stairType a of None \<Rightarrow> False | Some s \<Rightarrow> str_includes s label)"

text \<open>\<open>parseFloat\<close> on the three width literals reads the leading number.\<close>

fun parseFloat_width :: "pallet_gate_width \<Rightarrow> rat" where
  "parseFloat_width W2000mm = 2000"
| "parseFloat_width W2500mm = 2500"
| "parseFloat_width W3000mm = 3000"

text \<open>\<open>x || d\<close> on an optional number: \<open>undefined\<close> and \<open>0\<close> are falsy.\<close>

definition num_or :: "rat option \<Rightarrow> rat \<Rightarrow> rat" where
  "num_or x d = (case x of None \<Rightarrow> d | Some v \<Rightarrow> if v = 0 then d else v)"

text \<open>\<open>Array.prototype.findIndex\<close>, with \<open>None\<close> for \<open>-1\<close>, and \<open>splice(i, 1)\<close>.\<close>

fun findIndex :: "('a \<Rightarrow> bool) \<Rightarrow> 'a list \<Rightarrow> nat option" where
  "findIndex p [] = None"
| "findIndex p (x # xs) =
     (if p x then Some 0 else (case findIndex p xs of None \<Rightarrow> None | Some i \<Rightarrow> Some (Suc i)))"

definition splice1 :: "nat \<Rightarrow> 'a list \<Rightarrow> 'a list" where
  "splice1 i xs = take i xs @ drop (Suc i) xs"

section \<open>ConfigurationPanel.tsx: perimeter and occupancy\<close>

definition REPOS_LENGTH :: rat where "REPOS_LENGTH = 3"
definition REPOS_DEPTH :: rat where "REPOS_DEPTH = 14 / 10"

definition isVinkelStair :: "accessory \<Rightarrow> bool" where
  "isVinkelStair a = (acc_type a = Stairs \<and> stairType_includes a ''Vinkel'')"

definition calculatePerimeter :: "rat \<Rightarrow> rat \<Rightarrow> accessory list \<Rightarrow> rat" where
  "calculatePerimeter l w accs =
     (let perimeter = 2 * (l / 1000 + w / 1000);
          hasVinkelStair = list_ex isVinkelStair accs
      in if hasVinkelStair then perimeter + (2 * REPOS_DEPTH + REPOS_LENGTH) else perimeter)"

definition calculateStairsSpace :: "accessory list \<Rightarrow> rat" where
  "calculateStairsSpace accs =
     foldl (\<lambda>space stair.
              let space1 = space + quantity stair * 1
              in if stairType_includes stair ''Vinkel'' then space1 + REPOS_DEPTH else space1)
           0 (filter (\<lambda>a. acc_type a = Stairs) accs)"

definition gateWidth :: "accessory \<Rightarrow> rat" where
  "gateWidth gate = parseFloat_width (case width gate of None \<Rightarrow> W2000mm | Some w \<Rightarrow> w) / 1000"

definition calculatePalletGatesSpace :: "accessory list \<Rightarrow> rat" where
  "calculatePalletGatesSpace accs =
     foldl (\<lambda>sum gate. sum + quantity gate * gateWidth gate)
           0 (filter (\<lambda>a. acc_type a = PalletGate) accs)"

definition railingTotal :: "accessory \<Rightarrow> rat" where
  "railingTotal r = quantity r * num_or (len r) 0"

definition calculateTotalRailingLength :: "accessory list \<Rightarrow> rat" where
  "calculateTotalRailingLength accs =
     foldl (\<lambda>sum railing. sum + railingTotal railing)
           0 (filter (\<lambda>a. acc_type a = Railings) accs)"

definition calculateAvailablePerimeter :: "config \<Rightarrow> rat" where
  "calculateAvailablePerimeter cfg =
     (let perimeter = calculatePerimeter (cfg_length cfg) (cfg_width cfg) (accessories cfg);
          stairsSpace = calculateStairsSpace (accessories cfg);
          palletGatesSpace = calculatePalletGatesSpace (accessories cfg)
      in max 0 (perimeter - stairsSpace - palletGatesSpace))"

section \<open>ConfigurationPanel.tsx: the auto-fit resolver\<close>

text \<open>
  The shrink branch of the loop body: the entry written to \<open>adjustedAccessories[railingIndex]\<close>
  when the railing's consumed length exceeds what is left to reduce.
\<close>

definition shrinkRailing :: "accessory \<Rightarrow> rat \<Rightarrow> accessory" where
  "shrinkRailing railing remainingToReduce =
     (let currentLength = railingTotal railing;
          length0 = num_or (len railing) 10;
          newTotalLength = currentLength - remainingToReduce;
          newLength = newTotalLength / quantity railing
      in if newLength \<ge> 1 then railing\<lparr>len := Some (of_int \<lfloor>newLength\<rfloor>)\<rparr>
         else
           let newQuantity = max 1 (of_int \<lfloor>newTotalLength / length0\<rfloor>);
               finalLength = of_int \<lfloor>newTotalLength / newQuantity\<rfloor>
           in railing\<lparr>quantity := newQuantity, len := Some (max 1 finalLength)\<rparr>)"

text \<open>
  The \<open>for\<close> loop walks the snapshot \<open>railings\<close> from its last entry to its first while
  \<open>remainingToReduce > 0\<close>; the first argument is the part of the snapshot still to visit, last
  entry first.
\<close>

fun adjustLoop :: "accessory list \<Rightarrow> rat \<Rightarrow> accessory list \<Rightarrow> accessory list" where
  "adjustLoop [] remainingToReduce adjusted = adjusted"
| "adjustLoop (railing # rest) remainingToReduce adjusted =
     (if \<not> remainingToReduce > 0 then adjusted
      else case findIndex (\<lambda>a. acc_id a = acc_id railing) adjusted of
             None \<Rightarrow> adjustLoop rest remainingToReduce adjusted
           | Some railingIndex \<Rightarrow>
               let currentLength = railingTotal railing
               in if currentLength \<le> remainingToReduce
                  then adjustLoop rest (remainingToReduce - currentLength)
                         (splice1 railingIndex adjusted)
                  else adjustLoop rest 0
                         (adjusted[railingIndex := shrinkRailing railing remainingToReduce]))"

definition autoAdjustRailingsForPerimeter :: "config \<Rightarrow> accessory list" where
  "autoAdjustRailingsForPerimeter cfg =
     (let availablePerimeter = calculateAvailablePerimeter cfg;
          currentRailingLength = calculateTotalRailingLength (accessories cfg)
      in if currentRailingLength \<le> availablePerimeter then accessories cfg
         else
           let excessLength = currentRailingLength - availablePerimeter;
               railings = filter (\<lambda>a. acc_type a = Railings) (accessories cfg)
           in adjustLoop (rev railings) excessLength (accessories cfg))"

section \<open>ConfigurationPanel.tsx: mutations of the configuration\<close>

text \<open>
  A handler that returns early (after an \<open>alert\<close>) never calls \<open>onConfigChange\<close>: the
  configuration stays as it is and the handler's result is the rejection. A handler that calls
  \<open>onConfigChange cfg'\<close> results in \<open>Inr cfg'\<close>.
\<close>

datatype rejection =
    AccessoryNotFound
  | CannotAddRailings rat rat
  | OnlyOneVinkel
  | CannotUpdateRailings rat rat
  | ButtonDisabled

text \<open>\<open>Partial<Accessory>\<close>: every field of an accessory may be present or absent.\<close>

record updates =
  upd_id :: "string option"
  upd_type :: "acc_type option"
  upd_quantity :: "rat option"
  upd_stairType :: "string option"
  upd_len :: "rat option"
  upd_width :: "pallet_gate_width option"

definition no_updates :: updates where
  "no_updates = \<lparr>upd_id = None, upd_type = None, upd_quantity = None, upd_stairType = None,
                  upd_len = None, upd_width = None\<rparr>"

text \<open>The object spread \<open>{ ...a, ...updates }\<close>.\<close>

definition applyUpdates :: "accessory \<Rightarrow> updates \<Rightarrow> accessory" where
  "applyUpdates a u =
     \<lparr>acc_id = (case upd_id u of None \<Rightarrow> acc_id a | Some i \<Rightarrow> i),
      acc_type = (case upd_type u of None \<Rightarrow> acc_type a | Some t \<Rightarrow> t),
      quantity = (case upd_quantity u of None \<Rightarrow> quantity a | Some q \<Rightarrow> q),
      stairType = (case upd_stairType u of None \<Rightarrow> stairType a | Some s \<Rightarrow> Some s),
      len = (case upd_len u of None \<Rightarrow> len a | Some l \<Rightarrow> Some l),
      width = (case upd_width u of None \<Rightarrow> width a | Some w \<Rightarrow> Some w)\<rparr>"

fun type_name :: "acc_type \<Rightarrow> string" where
  "type_name Stairs = ''stairs''"
| "type_name Railings = ''railings''"
| "type_name PalletGate = ''palletGate''"

text \<open>
  \<open>addAccessory\<close>; the argument \<open>now\<close> is the decimal rendering of \<open>Date.now()\<close> that goes
  into the new identifier.
\<close>

definition addAccessory :: "config \<Rightarrow> acc_type \<Rightarrow> string \<Rightarrow> rejection + config" where
  "addAccessory cfg ty now =
     (let availablePerimeter = calculateAvailablePerimeter cfg;
          currentRailingLength = calculateTotalRailingLength (accessories cfg);
          defaultLength = 10
      in if ty = Railings \<and> currentRailingLength + defaultLength > availablePerimeter
         then Inl (CannotAddRailings availablePerimeter currentRailingLength)
         else
           let newAccessory =
                 \<lparr>acc_id = type_name ty @ ''-'' @ now, acc_type = ty, quantity = 1,
                  stairType = (if ty = Stairs then Some ''Straight 1m'' else None),
                  len = (if ty = Railings then Some 10 else None),
                  width = (if ty = PalletGate then Some W2000mm else None)\<rparr>;
               newAccessories = accessories cfg @ [newAccessory]
           in if ty = Stairs \<or> ty = PalletGate
              then Inr (cfg\<lparr>accessories :=
                          autoAdjustRailingsForPerimeter (cfg\<lparr>accessories := newAccessories\<rparr>)\<rparr>)
              else Inr (cfg\<lparr>accessories := newAccessories\<rparr>))"


definition updateAccessory :: "config \<Rightarrow> string \<Rightarrow> updates \<Rightarrow> rejection + config" where
  "updateAccessory cfg i u =
     (case find (\<lambda>a. acc_id a = i) (accessories cfg) of
        None \<Rightarrow> Inl AccessoryNotFound
      | Some accessory \<Rightarrow>
          let isVinkel = (case upd_stairType u of None \<Rightarrow> False | Some s \<Rightarrow> str_includes s ''Vinkel'');
              currentVinkelStairs = filter (\<lambda>a. isVinkelStair a \<and> acc_id a \<noteq> i) (accessories cfg)
          in if acc_type accessory = Stairs \<and> upd_stairType u \<noteq> None \<and> upd_stairType u \<noteq> Some []
                \<and> isVinkel \<and> length currentVinkelStairs > 0
             then Inl OnlyOneVinkel
             else
               let availablePerimeter = calculateAvailablePerimeter cfg;
                   otherRailingsLength =
                     foldl (\<lambda>sum r. sum + railingTotal r) 0
                       (filter (\<lambda>a. acc_type a = Railings \<and> acc_id a \<noteq> i) (accessories cfg));
                   newQuantity = (case upd_quantity u of Some q \<Rightarrow> q | None \<Rightarrow> quantity accessory);
                   newLength = (case upd_len u of Some l \<Rightarrow> l | None \<Rightarrow> num_or (len accessory) 0);
                   newTotalForThis = newQuantity * newLength;
                   totalRailingLength = otherRailingsLength + newTotalForThis
               in if acc_type accessory = Railings \<and> totalRailingLength > availablePerimeter
                  then Inl (CannotUpdateRailings availablePerimeter totalRailingLength)
                  else
                    let newAccessories =
                          map (\<lambda>a. if acc_id a = i then applyUpdates a u else a) (accessories cfg)
                    in if (acc_type accessory = Stairs \<or> acc_type accessory = PalletGate)
                          \<and> upd_quantity u \<noteq> None
                       then Inr (cfg\<lparr>accessories :=
                              autoAdjustRailingsForPerimeter (cfg\<lparr>accessories := newAccessories\<rparr>)\<rparr>)
                       else Inr (cfg\<lparr>accessories := newAccessories\<rparr>))"

text \<open>
  The two quantity buttons rendered for a stairs accessory. Both carry
  \<open>disabled={accessory.stairType?.includes('Vinkel')}\<close>; a disabled button does not run its
  \<open>onClick\<close>.
\<close>

definition stairsMinusClick :: "config \<Rightarrow> accessory \<Rightarrow> rejection + config" where
  "stairsMinusClick cfg accessory =
     (if stairType_includes accessory ''Vinkel'' then Inl ButtonDisabled
      else updateAccessory cfg (acc_id accessory)
             (no_updates\<lparr>upd_quantity := Some (max 1 (quantity accessory - 1))\<rparr>))"

definition stairsPlusClick :: "config \<Rightarrow> accessory \<Rightarrow> rejection + config" where
  "stairsPlusClick cfg accessory =
     (if stairType_includes accessory ''Vinkel'' then Inl ButtonDisabled
      else updateAccessory cfg (acc_id accessory)
             (no_updates\<lparr>upd_quantity := Some (quantity accessory + 1)\<rparr>))"

section \<open>utils/pricing.ts: floor area\<close>



section \<open>MezzanineViewer.tsx: the perimeter walker of the Railings component\<close>

datatype edge_name = Front | Right | Back | Left | ReposLeft | ReposFront

type_synonym vec3 = "rat \<times> rat \<times> rat"

record perimeterSegment =
  seg_start :: vec3
  seg_end :: vec3
  edge :: edge_name
  edgeLength :: rat
  edgeStartDist :: rat

text \<open>
  What the loop pushes to \<open>railingElements\<close>: the edge, the position of the group and the
  length of the rail (the meshes and posts of the group are derived from these).
\<close>

record placement =
  p_edge :: edge_name
  p_position :: vec3
  p_segmentLen :: rat

definition railingHeight :: rat where "railingHeight = 11 / 10"
definition stairWidth :: rat where "stairWidth = 1"
definition reposLength :: rat where "reposLength = 3"
definition reposDepth :: rat where "reposDepth = 14 / 10"
definition maxIterations :: nat where "maxIterations = 1000"

definition xOf :: "vec3 \<Rightarrow> rat" where "xOf v = fst v"
definition yOf :: "vec3 \<Rightarrow> rat" where "yOf v = fst (snd v)"
definition zOf :: "vec3 \<Rightarrow> rat" where "zOf v = snd (snd v)"

text \<open>The \<open>for\<close> loop over \<open>qIdx < quantity\<close> runs for \<open>qIdx = 0, 1, ...\<close> below the quantity.\<close>

definition getStairsXRanges :: "rat \<Rightarrow> (rat \<times> rat) list" where
  "getStairsXRanges quantity0 =
     (if quantity0 = 0 then []
      else map (\<lambda>qIdx. let offsetX = (of_nat qIdx - (quantity0 - 1) / 2) * 2
                       in (offsetX - stairWidth / 2, offsetX + stairWidth / 2))
               [0..<nat \<lceil>quantity0\<rceil>])"

definition gateSpacing :: "rat \<Rightarrow> rat \<Rightarrow> rat" where
  "gateSpacing prevWidth gateWidth0 = max (max prevWidth gateWidth0 + 1) 2"

text \<open>The two \<open>forEach\<close> passes over the gate widths; \<open>prev\<close> is \<open>widths[idx - 1]\<close>.\<close>

fun totalSpanLoop :: "rat option \<Rightarrow> rat list \<Rightarrow> rat \<Rightarrow> rat" where
  "totalSpanLoop prev [] totalSpan = totalSpan"
| "totalSpanLoop prev (g # gs) totalSpan =
     totalSpanLoop (Some g) gs
       ((case prev of None \<Rightarrow> totalSpan | Some p \<Rightarrow> totalSpan + gateSpacing p g) + g)"

fun gateRangesLoop :: "rat option \<Rightarrow> rat list \<Rightarrow> rat \<Rightarrow> (rat \<times> rat) list" where
  "gateRangesLoop prev [] currentX = []"
| "gateRangesLoop prev (g # gs) currentX =
     (let x1 = (case prev of None \<Rightarrow> currentX | Some p \<Rightarrow> currentX + gateSpacing p g);
          x2 = x1 + g / 2
      in (x2 - g / 2, x2 + g / 2) # gateRangesLoop (Some g) gs (x2 + g / 2))"

definition getPalletGatesXRanges :: "rat list \<Rightarrow> (rat \<times> rat) list" where
  "getPalletGatesXRanges widths =
     (if widths = [] then []
      else let totalSpan = totalSpanLoop None widths 0
           in gateRangesLoop None widths (- totalSpan / 2))"

definition perimeterSegments :: "rat \<Rightarrow> rat \<Rightarrow> rat \<Rightarrow> bool \<Rightarrow> perimeterSegment list" where
  "perimeterSegments l w h hasRepos =
     (let y = h + railingHeight / 2;
          reposZ = - w / 2 - reposDepth / 2;
          reposLeftX = - l / 2;
          reposFrontZ = - w / 2;
          reposOuterZ = reposZ - reposDepth / 2;
          frontStartX = reposLeftX + reposLength;
          frontEndX = l / 2;
          frontLength = frontEndX - frontStartX;
          frontPart =
            (if hasRepos then
               [\<lparr>seg_start = (reposLeftX, y, reposFrontZ), seg_end = (reposLeftX, y, reposOuterZ),
                 edge = ReposLeft, edgeLength = reposDepth, edgeStartDist = 0\<rparr>,
                \<lparr>seg_start = (reposLeftX, y, reposOuterZ),
                 seg_end = (reposLeftX + reposLength, y, reposOuterZ),
                 edge = ReposFront, edgeLength = reposLength, edgeStartDist = reposDepth\<rparr>,
                \<lparr>seg_start = (frontStartX, y, reposFrontZ), seg_end = (frontEndX, y, reposFrontZ),
                 edge = Front, edgeLength = frontLength,
                 edgeStartDist = reposDepth + reposLength\<rparr>]
             else
               [\<lparr>seg_start = (- l / 2, y, - w / 2), seg_end = (l / 2, y, - w / 2),
                 edge = Front, edgeLength = l, edgeStartDist = 0\<rparr>]);
          currentDist = (if hasRepos then reposDepth + reposLength + frontLength else l)
      in frontPart @
         [\<lparr>seg_start = (l / 2, y, - w / 2), seg_end = (l / 2, y, w / 2),
           edge = Right, edgeLength = w, edgeStartDist = currentDist\<rparr>,
          \<lparr>seg_start = (l / 2, y, w / 2), seg_end = (- l / 2, y, w / 2),
           edge = Back, edgeLength = l, edgeStartDist = currentDist + w\<rparr>,
          \<lparr>seg_start = (- l / 2, y, w / 2), seg_end = (- l / 2, y, - w / 2),
           edge = Left, edgeLength = w, edgeStartDist = currentDist + w + l\<rparr>])"

text \<open>
  \<open>perimeterSegments.findIndex(...)\<close> followed by the read of the segment at that index;
  \<open>None\<close> is the index \<open>-1\<close>.
\<close>

fun findEdge :: "rat \<Rightarrow> rat \<Rightarrow> perimeterSegment list \<Rightarrow> perimeterSegment option" where
  "findEdge perimeter currentDistance [] = None"
| "findEdge perimeter currentDistance (seg # rest) =
     (let nextEdgeStart = (case rest of [] \<Rightarrow> perimeter | nxt # _ \<Rightarrow> edgeStartDist nxt)
      in if currentDistance \<ge> edgeStartDist seg \<and> currentDistance < nextEdgeStart then Some seg
         else findEdge perimeter currentDistance rest)"

definition wrapAround :: "rat \<Rightarrow> rat \<Rightarrow> rat" where
  "wrapAround perimeter d = (if d \<ge> perimeter then 0 else d)"

definition xAt :: "perimeterSegment \<Rightarrow> rat \<Rightarrow> rat" where
  "xAt e t = xOf (seg_start e) + (xOf (seg_end e) - xOf (seg_start e)) * t"

definition distOfX :: "perimeterSegment \<Rightarrow> rat \<Rightarrow> rat" where
  "distOfX e x = (x - xOf (seg_start e)) / (xOf (seg_end e) - xOf (seg_start e)) * edgeLength e"

text \<open>
  One pass through the body of the \<open>while\<close> loop: it leaves the loop (\<open>break\<close>),
  moves the cursor without placing anything (\<open>continue\<close>), or pushes a placement and moves
  the cursor and the remaining length.
\<close>

datatype walk_step = Break | Continue rat | Push placement rat rat

definition walkStep ::
  "perimeterSegment list \<Rightarrow> rat \<Rightarrow> bool \<Rightarrow> (rat \<times> rat) list \<Rightarrow> rat \<Rightarrow> rat \<Rightarrow> walk_step" where
  "walkStep segs perimeter hasRepos ranges currentDistance remainingLength =
     (case findEdge perimeter currentDistance segs of
        None \<Rightarrow> Break
      | Some e \<Rightarrow>
          (let distanceAlongEdge = currentDistance - edgeStartDist e;
               remainingOnEdge = edgeLength e - distanceAlongEdge
           in if edge e = ReposFront \<and> hasRepos
              then Continue (wrapAround perimeter (currentDistance + remainingOnEdge))
              else
                let currentXPos = xAt e (distanceAlongEdge / edgeLength e);
                    gap = (if edge e = Front
                           then find (\<lambda>(minX, maxX). currentXPos \<ge> minX \<and> currentXPos \<le> maxX) ranges
                           else None)
                in (case gap of
                      Some (minX, skipToX) \<Rightarrow>
                        (let skipToDistance = distOfX e skipToX;
                             skipAmount = max (1 / 100) (skipToDistance - distanceAlongEdge)
                         in Continue (wrapAround perimeter (currentDistance + skipAmount)))
                    | None \<Rightarrow>
                        (let segmentLen0 = min (min remainingLength remainingOnEdge) 3;
                             startXPos = xAt e (distanceAlongEdge / edgeLength e);
                             endXPos = xAt e ((distanceAlongEdge + segmentLen0) / edgeLength e);
                             crossing =
                               (if edge e = Front
                                then find (\<lambda>(minX, maxX). endXPos > minX \<and> startXPos < minX) ranges
                                else None);
                             segmentLen =
                               (case crossing of
                                  Some (minX, maxX) \<Rightarrow>
                                    max (5 / 100) (distOfX e minX - distanceAlongEdge)
                                | None \<Rightarrow> segmentLen0)
                         in if segmentLen < 5 / 100
                            then Continue (wrapAround perimeter (currentDistance + 5 / 100))
                            else
                              let t = (distanceAlongEdge + segmentLen / 2) / edgeLength e;
                                  posX = xAt e t;
                                  posY = yOf (seg_start e);
                                  posZ = zOf (seg_start e)
                                         + (zOf (seg_end e) - zOf (seg_start e)) * t
                              in Push \<lparr>p_edge = edge e, p_position = (posX, posY, posZ),
                                       p_segmentLen = segmentLen\<rparr>
                                   (wrapAround perimeter (currentDistance + segmentLen))
                                   (remainingLength - segmentLen)))))"

text \<open>
  The \<open>while\<close> loop. Its first argument counts the iterations that \<open>iterationCount <
  maxIterations\<close> still allows; the result is the list of placements pushed from this point on.
\<close>

fun walkLoop ::
  "nat \<Rightarrow> perimeterSegment list \<Rightarrow> rat \<Rightarrow> bool \<Rightarrow> (rat \<times> rat) list \<Rightarrow> rat \<Rightarrow> rat \<Rightarrow> placement list"
where
  "walkLoop 0 segs perimeter hasRepos ranges currentDistance remainingLength = []"
| "walkLoop (Suc k) segs perimeter hasRepos ranges currentDistance remainingLength =
     (if \<not> remainingLength > 1 / 100 then []
      else (case walkStep segs perimeter hasRepos ranges currentDistance remainingLength of
              Break \<Rightarrow> []
            | Continue d \<Rightarrow> walkLoop k segs perimeter hasRepos ranges d remainingLength
            | Push p d r \<Rightarrow> p # walkLoop k segs perimeter hasRepos ranges d r))"

definition RailingsComponent ::
  "rat \<Rightarrow> rat \<Rightarrow> rat \<Rightarrow> rat \<Rightarrow> rat \<Rightarrow> rat \<Rightarrow> rat list \<Rightarrow> bool \<Rightarrow> placement list" where
  "RailingsComponent l w h quantity0 segmentLength stairsQuantity palletGatesWidths hasRepos =
     (let perimeter = 2 * (l + w) + (if hasRepos then reposDepth + reposLength else 0);
          totalRailingLength = quantity0 * segmentLength
      in if totalRailingLength \<le> 0 then []
         else walkLoop maxIterations (perimeterSegments l w h hasRepos) perimeter hasRepos
                (getStairsXRanges stairsQuantity @ getPalletGatesXRanges palletGatesWidths)
                0 (min totalRailingLength perimeter))"

text \<open>
  \<open>MezzanineModel\<close> renders one Railings component per railing accessory, with the summed
  quantity of all stairs, one width per pallet-gate unit and the Vinkel flag.
\<close>

definition modelPalletGatesWidths :: "accessory list \<Rightarrow> rat list" where
  "modelPalletGatesWidths accs =
     concat (map (\<lambda>gate. replicate (nat \<lceil>quantity gate\<rceil>) (gateWidth gate))
                 (filter (\<lambda>a. acc_type a = PalletGate) accs))"

definition modelStairsQuantity :: "accessory list \<Rightarrow> rat" where
  "modelStairsQuantity accs =
     foldl (\<lambda>sum stair. sum + quantity stair) 0 (filter (\<lambda>a. acc_type a = Stairs) accs)"

definition modelHasRepos :: "accessory list \<Rightarrow> bool" where
  "modelHasRepos accs =
     (find (\<lambda>s. stairType_includes s ''Vinkel'') (filter (\<lambda>a. acc_type a = Stairs) accs) \<noteq> None)"

definition modelRailingPlacements :: "config \<Rightarrow> accessory \<Rightarrow> placement list" where
  "modelRailingPlacements cfg railing =
     RailingsComponent (cfg_length cfg / 1000) (cfg_width cfg / 1000) (cfg_height cfg / 1000)
       (quantity railing) (num_or (len railing) 10)
       (modelStairsQuantity (accessories cfg)) (modelPalletGatesWidths (accessories cfg))
       (modelHasRepos (accessories cfg))"

section \<open>Binary64 arithmetic\<close>

text \<open>
  The resolver floors quotients and compares sums, so the lengths it produces depend on the
  rounding of JavaScript's numbers. For the claims about those lengths the functions of the
  panel are embedded a second time, with every arithmetic operation of the source rounded to
  binary64 (round to nearest, ties to even). A binary64 number is the rational it denotes;
  the inputs (dimensions, quantities, lengths) are taken to be such numbers, and a decimal
  literal or typed value such as 1.3 is \<open>b64 (13 / 10)\<close>. Overflow to \<open>Infinity\<close>, \<open>NaN\<close>
  and the reduced precision of subnormal numbers are not modelled.
\<close>

definition round_half_even :: "rat \<Rightarrow> int" where
  "round_half_even x =
     (let f = \<lfloor>x\<rfloor>; r = x - of_int f
      in if r < 1 / 2 then f else if r > 1 / 2 then f + 1 else if even f then f else f + 1)"

text \<open>
  The power of two \<open>p\<close> with \<open>p \<le> x < 2 * p\<close> for a positive \<open>x\<close>, searched upward from 1
  when \<open>x \<ge> 1\<close> and downward from 1 otherwise.
\<close>

function scale_down :: "rat \<Rightarrow> rat \<Rightarrow> rat" where
  "scale_down x p = (if 0 < p \<and> 2 * p \<le> x then scale_down x (2 * p) else p)"
  by pat_completeness auto

termination scale_down
proof (relation "measure (\<lambda>(x, p). nat \<lfloor>x / p\<rfloor>)")
  show "wf (measure (\<lambda>(x, p). nat \<lfloor>x / p\<rfloor>))" by simp
next
  fix x p :: rat
  assume a: "0 < p \<and> 2 * p \<le> x"
  then have "2 \<le> x / p" by (simp add: pos_le_divide_eq)
  moreover have "x / (2 * p) = (x / p) / 2" by simp
  ultimately have "\<lfloor>x / (2 * p)\<rfloor> < \<lfloor>x / p\<rfloor>" by linarith
  moreover have "0 < \<lfloor>x / p\<rfloor>" using \<open>2 \<le> x / p\<close> by linarith
  ultimately show "((x, 2 * p), (x, p)) \<in> measure (\<lambda>(x, p). nat \<lfloor>x / p\<rfloor>)" by simp
qed

function scale_up :: "rat \<Rightarrow> rat \<Rightarrow> rat" where
  "scale_up x p = (if 0 < x \<and> x < p then scale_up x (p / 2) else p)"
  by pat_completeness auto

termination scale_up
proof (relation "measure (\<lambda>(x, p). nat \<lceil>p / x\<rceil>)")
  show "wf (measure (\<lambda>(x, p). nat \<lceil>p / x\<rceil>))" by simp
next
  fix x p :: rat
  assume a: "0 < x \<and> x < p"
  then have "1 < p / x" by (simp add: pos_less_divide_eq)
  moreover have "(p / 2) / x = (p / x) / 2" by simp
  moreover have "p / x \<le> of_int \<lceil>p / x\<rceil>" by (rule le_of_int_ceiling)
  moreover have "(2 :: rat) \<le> of_int \<lceil>p / x\<rceil>"
  proof -
    from \<open>1 < p / x\<close> have "1 < \<lceil>p / x\<rceil>" by (simp add: less_ceiling_iff)
    then have "2 \<le> \<lceil>p / x\<rceil>" by simp
    then show ?thesis using of_int_le_iff[of 2 "\<lceil>p / x\<rceil>", where ?'a = rat] by simp
  qed
  ultimately have "(p / 2) / x \<le> of_int \<lceil>p / x\<rceil> - 1" by linarith
  then have "\<lceil>(p / 2) / x\<rceil> < \<lceil>p / x\<rceil>" by (simp add: ceiling_less_iff)
  moreover have "0 < \<lceil>p / x\<rceil>" using \<open>1 < p / x\<close> by (simp add: less_ceiling_iff)
  ultimately show "((x, p / 2), (x, p)) \<in> measure (\<lambda>(x, p). nat \<lceil>p / x\<rceil>)" by simp
qed

declare scale_down.simps [simp del] scale_up.simps [simp del]

text \<open>
  Rounding to 53 significant bits: with \<open>p \<le> \<bar>x\<bar> < 2 * p\<close> the binary64 numbers around
  \<open>\<bar>x\<bar>\<close> are the multiples of \<open>p / 2 ^ 52\<close>.
\<close>

definition b64 :: "rat \<Rightarrow> rat" where
  "b64 x =
     (if x = 0 then 0
      else let a = \<bar>x\<bar>;
               p = (if a < 1 then scale_up a 1 else scale_down a 1);
               u = p / 4503599627370496;
               m = of_int (round_half_even (a / u)) * u
           in if x < 0 then - m else m)"

definition add64 :: "rat \<Rightarrow> rat \<Rightarrow> rat" where "add64 a b = b64 (a + b)"
definition sub64 :: "rat \<Rightarrow> rat \<Rightarrow> rat" where "sub64 a b = b64 (a - b)"
definition mul64 :: "rat \<Rightarrow> rat \<Rightarrow> rat" where "mul64 a b = b64 (a * b)"
definition div64 :: "rat \<Rightarrow> rat \<Rightarrow> rat" where "div64 a b = b64 (a / b)"

section \<open>ConfigurationPanel.tsx in binary64 arithmetic\<close>

text \<open>
  The helpers, the resolver and the handlers \<open>addAccessory\<close> and \<open>updateAccessory\<close> of
  \<open>ConfigurationPanel.tsx\<close> once more, operation for operation and in the order in which
  the source evaluates them; the literal \<open>1.4\<close> of \<open>REPOS_DEPTH\<close> is rounded, \<open>3.0\<close>,
  \<open>1.0\<close>, \<open>1000\<close> and \<open>10\<close> are exact. Comparisons, \<open>Math.floor\<close> and \<open>Math.max\<close>
  do not round. \<open>removeAccessory\<close> computes nothing and is used as it is.
\<close>

definition REPOS_DEPTH_b64 :: rat where "REPOS_DEPTH_b64 = b64 (14 / 10)"

definition calculatePerimeter_b64 :: "rat \<Rightarrow> rat \<Rightarrow> accessory list \<Rightarrow> rat" where
  "calculatePerimeter_b64 l w accs =
     (let perimeter = mul64 2 (add64 (div64 l 1000) (div64 w 1000));
          hasVinkelStair = list_ex isVinkelStair accs
      in if hasVinkelStair
         then add64 perimeter (add64 (mul64 2 REPOS_DEPTH_b64) REPOS_LENGTH)
         else perimeter)"

definition calculateStairsSpace_b64 :: "accessory list \<Rightarrow> rat" where
  "calculateStairsSpace_b64 accs =
     foldl (\<lambda>space stair.
              let space1 = add64 space (mul64 (quantity stair) 1)
              in if stairType_includes stair ''Vinkel'' then add64 space1 REPOS_DEPTH_b64
                 else space1)
           0 (filter (\<lambda>a. acc_type a = Stairs) accs)"

definition gateWidth_b64 :: "accessory \<Rightarrow> rat" where
  "gateWidth_b64 gate =
     div64 (parseFloat_width (case width gate of None \<Rightarrow> W2000mm | Some w \<Rightarrow> w)) 1000"

definition calculatePalletGatesSpace_b64 :: "accessory list \<Rightarrow> rat" where
  "calculatePalletGatesSpace_b64 accs =
     foldl (\<lambda>sum gate. add64 sum (mul64 (quantity gate) (gateWidth_b64 gate)))
           0 (filter (\<lambda>a. acc_type a = PalletGate) accs)"

definition railingTotal_b64 :: "accessory \<Rightarrow> rat" where
  "railingTotal_b64 r = mul64 (quantity r) (num_or (len r) 0)"

definition calculateTotalRailingLength_b64 :: "accessory list \<Rightarrow> rat" where
  "calculateTotalRailingLength_b64 accs =
     foldl (\<lambda>sum railing. add64 sum (railingTotal_b64 railing))
           0 (filter (\<lambda>a. acc_type a = Railings) accs)"

definition calculateAvailablePerimeter_b64 :: "config \<Rightarrow> rat" where
  "calculateAvailablePerimeter_b64 cfg =
     (let perimeter = calculatePerimeter_b64 (cfg_length cfg) (cfg_width cfg) (accessories cfg);
          stairsSpace = calculateStairsSpace_b64 (accessories cfg);
          palletGatesSpace = calculatePalletGatesSpace_b64 (accessories cfg)
      in max 0 (sub64 (sub64 perimeter stairsSpace) palletGatesSpace))"

definition shrinkRailing_b64 :: "accessory \<Rightarrow> rat \<Rightarrow> accessory" where
  "shrinkRailing_b64 railing remainingToReduce =
     (let currentLength = railingTotal_b64 railing;
          length0 = num_or (len railing) 10;
          newTotalLength = sub64 currentLength remainingToReduce;
          newLength = div64 newTotalLength (quantity railing)
      in if newLength \<ge> 1 then railing\<lparr>len := Some (of_int \<lfloor>newLength\<rfloor>)\<rparr>
         else
           let newQuantity = max 1 (of_int \<lfloor>div64 newTotalLength length0\<rfloor>);
               finalLength = of_int \<lfloor>div64 newTotalLength newQuantity\<rfloor>
           in railing\<lparr>quantity := newQuantity, len := Some (max 1 finalLength)\<rparr>)"

fun adjustLoop_b64 :: "accessory list \<Rightarrow> rat \<Rightarrow> accessory list \<Rightarrow> accessory list" where
  "adjustLoop_b64 [] remainingToReduce adjusted = adjusted"
| "adjustLoop_b64 (railing # rest) remainingToReduce adjusted =
     (if \<not> remainingToReduce > 0 then adjusted
      else case findIndex (\<lambda>a. acc_id a = acc_id railing) adjusted of
             None \<Rightarrow> adjustLoop_b64 rest remainingToReduce adjusted
           | Some railingIndex \<Rightarrow>
               let currentLength = railingTotal_b64 railing
               in if currentLength \<le> remainingToReduce
                  then adjustLoop_b64 rest (sub64 remainingToReduce currentLength)
                         (splice1 railingIndex adjusted)
                  else adjustLoop_b64 rest 0
                         (adjusted[railingIndex := shrinkRailing_b64 railing remainingToReduce]))"

definition autoAdjustRailingsForPerimeter_b64 :: "config \<Rightarrow> accessory list" where
  "autoAdjustRailingsForPerimeter_b64 cfg =
     (let availablePerimeter = calculateAvailablePerimeter_b64 cfg;
          currentRailingLength = calculateTotalRailingLength_b64 (accessories cfg)
      in if currentRailingLength \<le> availablePerimeter then accessories cfg
         else
           let excessLength = sub64 currentRailingLength availablePerimeter;
               railings = filter (\<lambda>a. acc_type a = Railings) (accessories cfg)
           in adjustLoop_b64 (rev railings) excessLength (accessories cfg))"



section \<open>utils/pricing.ts in binary64 arithmetic\<close>



section \<open>Auxiliary notions and example configurations\<close>

definition stairSpaceOf :: "accessory \<Rightarrow> rat" where
  "stairSpaceOf s = quantity s + (if stairType_includes s ''Vinkel'' then REPOS_DEPTH else 0)"

definition mkStair :: "string \<Rightarrow> rat \<Rightarrow> string \<Rightarrow> accessory" where
  "mkStair i q st = \<lparr>acc_id = i, acc_type = Stairs, quantity = q, stairType = Some st,
                      len = None, width = None\<rparr>"

definition mkRailing :: "string \<Rightarrow> rat \<Rightarrow> rat \<Rightarrow> accessory" where
  "mkRailing i q l = \<lparr>acc_id = i, acc_type = Railings, quantity = q, stairType = None,
                       len = Some l, width = None\<rparr>"

definition mkGate :: "string \<Rightarrow> rat \<Rightarrow> pallet_gate_width \<Rightarrow> accessory" where
  "mkGate i q w = \<lparr>acc_id = i, acc_type = PalletGate, quantity = q, stairType = None,
                    len = None, width = Some w\<rparr>"

definition mkConfig :: "rat \<Rightarrow> rat \<Rightarrow> accessory list \<Rightarrow> config" where
  "mkConfig l w accs = \<lparr>cfg_length = l, cfg_width = w, cfg_height = 3000, loadCapacity = 250,
                         accessories = accs\<rparr>"

text \<open>The default platform of \<open>App.tsx\<close> (9400 mm by 4000 mm) with one Vinkel stair.\<close>

definition vinkelOnly :: config where
  "vinkelOnly = mkConfig 9400 4000 [mkStair ''stairs-1'' 1 ''Vinkel 1.2m'']"

text \<open>
  The data model asks of every railing a quantity of at least 1 and a per-unit length of at
  least 1 m; other accessories are not constrained by this predicate.
\<close>

definition validRailing :: "accessory \<Rightarrow> bool" where
  "validRailing a =
     (acc_type a \<noteq> Railings
      \<or> (quantity a \<ge> 1 \<and> (case len a of None \<Rightarrow> False | Some l \<Rightarrow> l \<ge> 1)))"

subsection \<open>The auto-fit contract as the specification words it\<close>

text \<open>
  Section 4.3 of the specification, independently of the loop in the source. A railing that
  cannot be removed whole is shrunk: first the per-unit length alone is reduced, rounded down
  to whole metres; if that would fall below 1 m, the quantity becomes
  \<open>max(1, floor(newTotal / originalSegmentLength))\<close> and the per-unit length
  \<open>floor(newTotal / newQuantity)\<close>, floored at 1.
\<close>

definition specShrink :: "accessory \<Rightarrow> rat \<Rightarrow> accessory" where
  "specShrink r excess =
     (let originalSegmentLength = (case len r of None \<Rightarrow> 0 | Some l \<Rightarrow> l);
          newTotal = quantity r * originalSegmentLength - excess;
          reduced = (of_int \<lfloor>newTotal / quantity r\<rfloor> :: rat)
      in if reduced \<ge> 1 then r\<lparr>len := Some reduced\<rparr>
         else let newQuantity = max 1 (of_int \<lfloor>newTotal / originalSegmentLength\<rfloor>)
              in r\<lparr>quantity := newQuantity,
                   len := Some (max 1 (of_int \<lfloor>newTotal / newQuantity\<rfloor>))\<rparr>)"

text \<open>
  The walk over the accessory list from the most recently added entry backward; the list is
  given most recent entry first. It stops as soon as the excess is absorbed, removes a railing
  whose whole consumed length fits into the remaining excess, and shrinks the first railing
  that does not.
\<close>

fun reduceBackward :: "rat \<Rightarrow> accessory list \<Rightarrow> accessory list" where
  "reduceBackward excess [] = []"
| "reduceBackward excess (a # older) =
     (if \<not> excess > 0 then a # older
      else if acc_type a \<noteq> Railings then a # reduceBackward excess older
      else if railingTotal a \<le> excess then reduceBackward (excess - railingTotal a) older
      else specShrink a excess # older)"

definition autofitSpec :: "config \<Rightarrow> accessory list" where
  "autofitSpec cfg =
     (let requested = calculateTotalRailingLength (accessories cfg);
          available = calculateAvailablePerimeter cfg
      in if requested \<le> available then accessories cfg
         else rev (reduceBackward (requested - available) (rev (accessories cfg))))"

subsection \<open>The auto-fit contract of the specification in the same arithmetic\<close>

text \<open>
  The contract of section 4.3 once more, with the requested and the available length, the
  excess, the consumed length of a railing and the quotients taken as the binary64 numbers
  the program computes; \<open>floor\<close> and \<open>max\<close> are exact on them.
\<close>

definition specShrink_b64 :: "accessory \<Rightarrow> rat \<Rightarrow> accessory" where
  "specShrink_b64 r excess =
     (let originalSegmentLength = (case len r of None \<Rightarrow> 0 | Some l \<Rightarrow> l);
          newTotal = sub64 (mul64 (quantity r) originalSegmentLength) excess;
          reduced = (of_int \<lfloor>div64 newTotal (quantity r)\<rfloor> :: rat)
      in if reduced \<ge> 1 then r\<lparr>len := Some reduced\<rparr>
         else let newQuantity = max 1 (of_int \<lfloor>div64 newTotal originalSegmentLength\<rfloor>)
              in r\<lparr>quantity := newQuantity,
                   len := Some (max 1 (of_int \<lfloor>div64 newTotal newQuantity\<rfloor>))\<rparr>)"

fun reduceBackward_b64 :: "rat \<Rightarrow> accessory list \<Rightarrow> accessory list" where
  "reduceBackward_b64 excess [] = []"
| "reduceBackward_b64 excess (a # older) =
     (if \<not> excess > 0 then a # older
      else if acc_type a \<noteq> Railings then a # reduceBackward_b64 excess older
      else if railingTotal_b64 a \<le> excess
           then reduceBackward_b64 (sub64 excess (railingTotal_b64 a)) older
      else specShrink_b64 a excess # older)"

definition autofitSpec_b64 :: "config \<Rightarrow> accessory list" where
  "autofitSpec_b64 cfg =
     (let requested = calculateTotalRailingLength_b64 (accessories cfg);
          available = calculateAvailablePerimeter_b64 cfg
      in if requested \<le> available then accessories cfg
         else rev (reduceBackward_b64 (sub64 requested available) (rev (accessories cfg))))"

text \<open>A platform with 26.8 m of available perimeter and one railing entry of 40 m.\<close>

definition fortyMetres :: config where
  "fortyMetres = mkConfig 9400 4000 [mkRailing ''railings-1'' 1 40]"

text \<open>Two railings of 10 m each, three pallet gates and three stairs, on a platform with 20 m of perimeter.\<close>

definition twoRailings :: config where
  "twoRailings = mkConfig 6000 4000
     [mkRailing ''railings-1'' 1 10, mkGate ''palletGate-2'' 3 W3000mm,
      mkRailing ''railings-3'' 2 5, mkStair ''stairs-4'' 3 ''Straight 1m'']"

text \<open>The list \<open>newAccessories\<close> that \<open>updateAccessory\<close> builds with \<open>map\<close>.\<close>

definition patchAccessories :: "accessory list \<Rightarrow> string \<Rightarrow> updates \<Rightarrow> accessory list" where
  "patchAccessories accs i u = map (\<lambda>a. if acc_id a = i then applyUpdates a u else a) accs"



text \<open>A Vinkel stair next to a straight stair accessory of two units.\<close>

definition cornerAndStraight :: config where
  "cornerAndStraight = mkConfig 9400 4000
     [mkStair ''stairs-1'' 1 ''Vinkel 1m'', mkStair ''stairs-2'' 2 ''Straight 1m'']"

text \<open>
  The default platform with one stair, one pallet gate and one railing as \<open>addAccessory\<close>
  creates them (quantity 1, \<open>Straight 1m\<close>, \<open>2000mm\<close>, 10 m).
\<close>

definition stairGateRailing :: config where
  "stairGateRailing = mkConfig 9400 4000
     [mkStair ''stairs-1'' 1 ''Straight 1m'', mkGate ''palletGate-2'' 1 W2000mm,
      mkRailing ''railings-3'' 1 10]"

text \<open>
  The X-interval \<open>[center - length/2, center + length/2]\<close> of a placement, and two intervals
  sharing more than an end point.
\<close>

definition placementXInterval :: "placement \<Rightarrow> rat \<times> rat" where
  "placementXInterval p =
     (xOf (p_position p) - p_segmentLen p / 2, xOf (p_position p) + p_segmentLen p / 2)"

definition intervalsOverlap :: "rat \<times> rat \<Rightarrow> rat \<times> rat \<Rightarrow> bool" where
  "intervalsOverlap i j = (fst i < snd j \<and> fst j < snd i)"



subsection \<open>Example configurations for the binary64 functions\<close>

text \<open>
  A platform of 2000 mm by 2300 mm with a Vinkel stair and one railing of 13 m; its available
  perimeter is 11.999999999999998.
\<close>

definition vinkelThirteen :: config where
  "vinkelThirteen = mkConfig 2000 2300
     [mkStair ''stairs-1'' 1 ''Vinkel 1m'', mkRailing ''railings-2'' 1 13]"


definition threeGates :: config where
  "threeGates = mkConfig 2000 2000
     [mkGate ''palletGate-1'' 3 W2000mm, mkRailing ''railings-2'' 1 2,
      mkRailing ''railings-3'' 1 (b64 (13 / 10))]"

definition threeGatesOnce :: config where
  "threeGatesOnce = mkConfig 2000 2000
     [mkGate ''palletGate-1'' 3 W2000mm, mkRailing ''railings-2'' 1 2,
      mkRailing ''railings-3'' 1 1]"





subsection \<open>The panel revision that labels corner stairs \<open>Corner stairs\<close>\<close>

text \<open>
  A second revision of the panel (the one whose stair-type select offers
  \<open>Corner stairs 1m\<close> and \<open>Corner stairs 1.2m\<close>, the label the pricing module tests)
  computes perimeter and available perimeter differently; its resolver and handlers are
  those modelled above.
\<close>

definition isCornerStair :: "accessory \<Rightarrow> bool" where
  "isCornerStair a = (acc_type a = Stairs \<and> stairType_includes a ''Corner stairs'')"

definition calculatePerimeterCorner :: "rat \<Rightarrow> rat \<Rightarrow> accessory list \<Rightarrow> rat" where
  "calculatePerimeterCorner l w accs =
     (let perimeter = 2 * (l / 1000 + w / 1000);
          hasCornerStair = list_ex isCornerStair accs
      in if hasCornerStair then perimeter + 2 * REPOS_DEPTH else perimeter)"

definition calculateStairsSpaceCorner :: "accessory list \<Rightarrow> rat" where
  "calculateStairsSpaceCorner accs =
     foldl (\<lambda>space stair.
              let space1 = space + quantity stair * 1
              in if stairType_includes stair ''Corner stairs'' then space1 + REPOS_DEPTH
                 else space1)
           0 (filter (\<lambda>a. acc_type a = Stairs) accs)"

definition calculateAvailablePerimeterCorner :: "config \<Rightarrow> rat" where
  "calculateAvailablePerimeterCorner cfg =
     (let perimeter = calculatePerimeterCorner (cfg_length cfg) (cfg_width cfg) (accessories cfg);
          stairsSpace = calculateStairsSpaceCorner (accessories cfg);
          palletGatesSpace = calculatePalletGatesSpace (accessories cfg);
          hasCornerStair = list_ex isCornerStair (accessories cfg)
      in if hasCornerStair then max 0 (of_int \<lfloor>perimeter\<rfloor>)
         else let available = perimeter - stairsSpace - palletGatesSpace
              in max 0 (of_int \<lceil>available\<rceil>))"

definition cornerOnly :: config where
  "cornerOnly = mkConfig 9400 4000 [mkStair ''stairs-1'' 1 ''Corner stairs 1.2m'']"

section \<open>Sums computed by the folds\<close>

lemma foldl_plus_sum_list:
  "foldl (\<lambda>s a. s + f a) z xs = (z::rat) + sum_list (map f xs)"
  by (induction xs arbitrary: z) simp_all


lemma stairs_space_sum:
  "calculateStairsSpace accs =
     sum_list (map stairSpaceOf (filter (\<lambda>a. acc_type a = Stairs) accs))"
proof -
  have "(\<lambda>space stair. let space1 = space + quantity stair * 1
           in if stairType_includes stair ''Vinkel'' then space1 + REPOS_DEPTH else space1)
        = (\<lambda>space stair. space + stairSpaceOf stair)"
    by (simp add: fun_eq_iff stairSpaceOf_def Let_def)
  then show ?thesis
    by (simp add: calculateStairsSpace_def foldl_plus_sum_list)
qed

lemma gates_space_sum:
  "calculatePalletGatesSpace accs =
     sum_list (map (\<lambda>g. quantity g * gateWidth g) (filter (\<lambda>a. acc_type a = PalletGate) accs))"
  by (simp add: calculatePalletGatesSpace_def foldl_plus_sum_list)

lemma list_ex_filter_nonempty: "list_ex P xs = (filter P xs \<noteq> [])"
  by (induction xs) auto

section \<open>Available perimeter with a corner stair\<close>

lemma stairs_space_one_vinkel:
  "length (filter isVinkelStair accs) = 1 \<Longrightarrow>
   sum_list (map stairSpaceOf (filter (\<lambda>a. acc_type a = Stairs) accs))
     = sum_list (map quantity (filter (\<lambda>a. acc_type a = Stairs) accs)) + REPOS_DEPTH"
proof (induction accs)
  case Nil
  then show ?case by simp
next
  case (Cons a accs)
  show ?case
  proof (cases "isVinkelStair a")
    case True
    with Cons.prems have "filter isVinkelStair accs = []" by simp
    then have none: "\<forall>x\<in>set accs. \<not> isVinkelStair x"
      by (simp add: filter_empty_conv)
    have "sum_list (map stairSpaceOf (filter (\<lambda>a. acc_type a = Stairs) accs))
          = sum_list (map quantity (filter (\<lambda>a. acc_type a = Stairs) accs))"
      using none
      by (intro arg_cong[where f = sum_list] map_cong refl)
         (auto simp: stairSpaceOf_def isVinkelStair_def)
    moreover have "stairSpaceOf a = quantity a + REPOS_DEPTH" "acc_type a = Stairs"
      using True by (simp_all add: stairSpaceOf_def isVinkelStair_def)
    ultimately show ?thesis
      by simp
  next
    case False
    with Cons.prems have "length (filter isVinkelStair accs) = 1" by simp
    from Cons.IH[OF this] False show ?thesis
      by (auto simp: stairSpaceOf_def isVinkelStair_def)
  qed
qed

text \<open>
  C1, as the code computes it. With exactly one Vinkel (corner) stair in the configuration,
  \<open>calculateAvailablePerimeter\<close> is the perimeter \<open>2 * (length + width) / 1000 + 5.8\<close> minus
  the stair occupancy (one metre per stair unit of every stairs accessory, plus 1.4 m for the
  corner stair) minus the pallet-gate occupancy, and not below 0. Nothing is rounded.
\<close>

theorem available_perimeter_one_vinkel:
  assumes "length (filter isVinkelStair (accessories cfg)) = 1"
  shows "calculateAvailablePerimeter cfg =
           max 0 (2 * (cfg_length cfg / 1000 + cfg_width cfg / 1000) + 58 / 10
                  - (sum_list (map quantity (filter (\<lambda>a. acc_type a = Stairs) (accessories cfg)))
                     + 14 / 10)
                  - sum_list (map (\<lambda>g. quantity g * gateWidth g)
                       (filter (\<lambda>a. acc_type a = PalletGate) (accessories cfg))))"
proof -
  from assms have ex: "list_ex isVinkelStair (accessories cfg)"
    by (auto simp: list_ex_filter_nonempty)
  show ?thesis
    using ex stairs_space_one_vinkel[OF assms]
    by (simp add: calculateAvailablePerimeter_def calculatePerimeter_def stairs_space_sum
        gates_space_sum REPOS_DEPTH_def REPOS_LENGTH_def Let_def)
qed

theorem available_perimeter_one_vinkel_witness:
  "length (filter isVinkelStair (accessories vinkelOnly)) = 1
   \<and> calculateAvailablePerimeter vinkelOnly = 302 / 10"
  using available_perimeter_one_vinkel[of vinkelOnly]
  by (simp add: vinkelOnly_def mkConfig_def mkStair_def isVinkelStair_def stairType_includes_def
      gateWidth_def)

text \<open>
  C1 as stated fails: on the 9400 by 4000 platform with a single Vinkel stair the code returns
  30.2 m, while the full perimeter rounded down is 32 m.
\<close>

theorem available_perimeter_floor_counterexample:
  "length (filter isVinkelStair (accessories vinkelOnly)) = 1
   \<and> calculateAvailablePerimeter vinkelOnly = 302 / 10
   \<and> (of_int \<lfloor>2 * (cfg_length vinkelOnly + cfg_width vinkelOnly) / 1000 + 58 / 10\<rfloor> :: rat) = 32
   \<and> calculateAvailablePerimeter vinkelOnly
       \<noteq> of_int \<lfloor>2 * (cfg_length vinkelOnly + cfg_width vinkelOnly) / 1000 + 58 / 10\<rfloor>"
proof -
  have n: "length (filter isVinkelStair (accessories vinkelOnly)) = 1"
    by code_simp
  have a: "calculateAvailablePerimeter vinkelOnly = 302 / 10"
    by code_simp
  have f: "(of_int \<lfloor>2 * (cfg_length vinkelOnly + cfg_width vinkelOnly) / 1000 + 58 / 10\<rfloor> :: rat) = 32"
    by code_simp
  show ?thesis unfolding a f using n by simp
qed

section \<open>The auto-fit loop\<close>

lemma shrink_valid:
  assumes "validRailing r" "acc_type r = Railings"
  shows "validRailing (shrinkRailing r ex)" "acc_type (shrinkRailing r ex) = Railings"
  using assms
  by (auto simp: validRailing_def shrinkRailing_def Let_def split: option.splits)

lemma set_splice1: "set (splice1 i xs) \<subseteq> set xs"
  unfolding splice1_def by (auto dest: in_set_takeD in_set_dropD)

lemma adjustLoop_stop: "\<not> ex > 0 \<Longrightarrow> adjustLoop rs ex adj = adj"
  by (cases rs) simp_all

lemma adjustLoop_skip:
  "ex > 0 \<Longrightarrow> findIndex (\<lambda>a. acc_id a = acc_id r) adj = None \<Longrightarrow>
   adjustLoop (r # rs) ex adj = adjustLoop rs ex adj"
  by simp

lemma adjustLoop_remove:
  "ex > 0 \<Longrightarrow> findIndex (\<lambda>a. acc_id a = acc_id r) adj = Some i \<Longrightarrow> railingTotal r \<le> ex \<Longrightarrow>
   adjustLoop (r # rs) ex adj = adjustLoop rs (ex - railingTotal r) (splice1 i adj)"
  by simp

lemma adjustLoop_shrink:
  "ex > 0 \<Longrightarrow> findIndex (\<lambda>a. acc_id a = acc_id r) adj = Some i \<Longrightarrow> \<not> railingTotal r \<le> ex \<Longrightarrow>
   adjustLoop (r # rs) ex adj = adj[i := shrinkRailing r ex]"
  by (simp add: adjustLoop_stop)

lemma adjustLoop_Nil [simp]: "adjustLoop [] ex adj = adj"
  by simp

declare adjustLoop.simps [simp del]

lemma adjustLoop_valid:
  "\<forall>r\<in>set rs. validRailing r \<and> acc_type r = Railings \<Longrightarrow> \<forall>a\<in>set adj. validRailing a \<Longrightarrow>
   \<forall>a\<in>set (adjustLoop rs ex adj). validRailing a"
proof (induction rs arbitrary: ex adj)
  case Nil
  then show ?case by simp
next
  case (Cons r rs)
  from Cons.prems(1) have rs: "\<forall>r\<in>set rs. validRailing r \<and> acc_type r = Railings"
    and r: "validRailing r" "acc_type r = Railings" by simp_all
  consider (stop) "\<not> ex > 0"
    | (skip) "ex > 0" "findIndex (\<lambda>a. acc_id a = acc_id r) adj = None"
    | (remove) i where "ex > 0" "findIndex (\<lambda>a. acc_id a = acc_id r) adj = Some i"
        "railingTotal r \<le> ex"
    | (shrink) i where "ex > 0" "findIndex (\<lambda>a. acc_id a = acc_id r) adj = Some i"
        "\<not> railingTotal r \<le> ex"
    by (cases "findIndex (\<lambda>a. acc_id a = acc_id r) adj") auto
  then show ?case
  proof cases
    case stop
    then show ?thesis using Cons.prems(2) by (simp add: adjustLoop_stop)
  next
    case skip
    then show ?thesis using Cons.IH[OF rs Cons.prems(2)] by (simp add: adjustLoop_skip)
  next
    case remove
    have "\<forall>a\<in>set (splice1 i adj). validRailing a"
      using Cons.prems(2) set_splice1[of i adj] by blast
    from Cons.IH[OF rs this] remove show ?thesis by (simp add: adjustLoop_remove)
  next
    case shrink
    have "validRailing (shrinkRailing r ex)"
      using r shrink_valid by simp
    then have "\<forall>a\<in>set (adj[i := shrinkRailing r ex]). validRailing a"
      using Cons.prems(2) set_update_subset_insert[of adj i "shrinkRailing r ex"]
      by blast
    with shrink show ?thesis by (simp add: adjustLoop_shrink)
  qed
qed

lemma autofit_valid_aux:
  assumes "\<forall>a\<in>set (accessories cfg). validRailing a"
  shows "\<forall>a\<in>set (autoAdjustRailingsForPerimeter cfg). validRailing a"
proof -
  have "\<forall>r\<in>set (rev (filter (\<lambda>a. acc_type a = Railings) (accessories cfg))).
          validRailing r \<and> acc_type r = Railings"
    using assms by simp
  from adjustLoop_valid[OF this assms] assms show ?thesis
    by (simp add: autoAdjustRailingsForPerimeter_def Let_def)
qed

lemma validRailing_iff:
  "validRailing a =
     (acc_type a = Railings \<longrightarrow> quantity a \<ge> 1 \<and> (\<exists>l. len a = Some l \<and> l \<ge> 1))"
  by (auto simp: validRailing_def split: option.splits)

lemmas example_defs = mkConfig_def mkStair_def mkRailing_def mkGate_def

text \<open>
  C9. If every railing of the configuration has quantity at least 1 and per-unit length at
  least 1, then every railing in the output of the auto-fit resolver has quantity at least 1
  and per-unit length at least 1.
\<close>

theorem autofit_keeps_railings_valid:
  assumes "\<forall>a\<in>set (accessories cfg).
             acc_type a = Railings \<longrightarrow> quantity a \<ge> 1 \<and> (\<exists>l. len a = Some l \<and> l \<ge> 1)"
  shows "\<forall>a\<in>set (autoAdjustRailingsForPerimeter cfg).
           acc_type a = Railings \<longrightarrow> quantity a \<ge> 1 \<and> (\<exists>l. len a = Some l \<and> l \<ge> 1)"
  using autofit_valid_aux[of cfg] assms unfolding validRailing_iff by blast

theorem autofit_keeps_railings_valid_witness:
  "list_all (\<lambda>a. acc_type a = Railings \<and> quantity a \<ge> 1 \<and> (\<exists>l. len a = Some l \<and> l \<ge> 1))
     (filter (\<lambda>a. acc_type a = Railings) (accessories twoRailings))
   \<and> autoAdjustRailingsForPerimeter twoRailings \<noteq> accessories twoRailings
   \<and> list_all (\<lambda>a. acc_type a = Railings \<and> quantity a \<ge> 1 \<and> (\<exists>l. len a = Some l \<and> l \<ge> 1))
       (filter (\<lambda>a. acc_type a = Railings) (autoAdjustRailingsForPerimeter twoRailings))"
proof -
  have out: "autoAdjustRailingsForPerimeter twoRailings =
      [mkRailing ''railings-1'' 1 8, mkGate ''palletGate-2'' 3 W3000mm,
       mkStair ''stairs-4'' 3 ''Straight 1m'']"
    by code_simp
  have pre: "\<forall>a\<in>set (accessories twoRailings).
      acc_type a = Railings \<longrightarrow> quantity a \<ge> 1 \<and> (\<exists>l. len a = Some l \<and> l \<ge> 1)"
    by (simp add: twoRailings_def example_defs)
  from autofit_keeps_railings_valid[OF pre] show ?thesis
    unfolding out by (simp add: twoRailings_def example_defs)
qed

subsection \<open>The loop implements the contract of the specification\<close>

lemma one_le_floor_rat: "(1 \<le> (of_int \<lfloor>x\<rfloor> :: rat)) = (1 \<le> (x::rat))"
proof -
  have "(1 \<le> (of_int \<lfloor>x\<rfloor> :: rat)) = (1 \<le> \<lfloor>x\<rfloor>)" by linarith
  also have "\<dots> = (1 \<le> x)" using le_floor_iff[of 1 x] by simp
  finally show ?thesis .
qed

lemma specShrink_eq:
  assumes "railingTotal r > ex" "ex > 0"
  shows "specShrink r ex = shrinkRailing r ex"
proof -
  from assms have pos: "railingTotal r \<noteq> 0" by auto
  then obtain l where l: "len r = Some l" "l \<noteq> 0"
    by (cases "len r") (auto simp: railingTotal_def num_or_def split: if_splits)
  then show ?thesis
    by (simp add: specShrink_def shrinkRailing_def railingTotal_def num_or_def Let_def
        one_le_floor_rat)
qed

lemma reduceBackward_stop: "\<not> ex > 0 \<Longrightarrow> reduceBackward ex xs = xs"
  by (cases xs) simp_all

lemma findIndex_append_first:
  "p a \<Longrightarrow> \<forall>x\<in>set xs. \<not> p x \<Longrightarrow> findIndex p (xs @ a # ys) = Some (length xs)"
  by (induction xs) simp_all

lemma splice1_middle: "splice1 (length xs) (xs @ a # ys) = xs @ ys"
  by (simp add: splice1_def)

lemma adjustLoop_refines:
  "distinct (map acc_id (xs @ ys)) \<Longrightarrow>
   adjustLoop (rev (filter (\<lambda>a. acc_type a = Railings) xs)) ex (xs @ ys)
     = rev (reduceBackward ex (rev xs)) @ ys"
proof (induction xs arbitrary: ex ys rule: rev_induct)
  case Nil
  then show ?case by simp
next
  case (snoc a xs)
  from snoc.prems have d: "distinct (map acc_id (xs @ a # ys))" by simp
  then have "acc_id a \<notin> acc_id ` set xs" by auto
  then have fresh: "\<forall>x\<in>set xs. \<not> acc_id x = acc_id a" by (metis imageI)
  show ?case
  proof (cases "acc_type a = Railings")
    case False
    have "adjustLoop (rev (filter (\<lambda>a. acc_type a = Railings) xs)) ex (xs @ a # ys)
            = rev (reduceBackward ex (rev xs)) @ a # ys"
      using snoc.IH[OF d] .
    with False show ?thesis
      by (simp add: reduceBackward_stop)
  next
    case rail: True
    have idx: "findIndex (\<lambda>x. acc_id x = acc_id a) (xs @ a # ys) = Some (length xs)"
      using fresh by (simp add: findIndex_append_first)
    have flt: "rev (filter (\<lambda>a. acc_type a = Railings) (xs @ [a]))
                = a # rev (filter (\<lambda>a. acc_type a = Railings) xs)"
      using rail by simp
    show ?thesis
    proof (cases "ex > 0")
      case False
      then show ?thesis by (simp add: adjustLoop_stop reduceBackward_stop)
    next
      case pos: True
      show ?thesis
      proof (cases "railingTotal a \<le> ex")
        case True
        from d have d': "distinct (map acc_id (xs @ ys))" by simp
        have "adjustLoop (rev (filter (\<lambda>a. acc_type a = Railings) (xs @ [a]))) ex ((xs @ [a]) @ ys)
                = adjustLoop (rev (filter (\<lambda>a. acc_type a = Railings) xs)) (ex - railingTotal a)
                    (xs @ ys)"
          using adjustLoop_remove[OF pos idx True] flt by (simp add: splice1_middle)
        also have "\<dots> = rev (reduceBackward (ex - railingTotal a) (rev xs)) @ ys"
          using snoc.IH[OF d'] .
        finally show ?thesis using pos rail True by simp
      next
        case False
        have "adjustLoop (rev (filter (\<lambda>a. acc_type a = Railings) (xs @ [a]))) ex ((xs @ [a]) @ ys)
                = xs @ shrinkRailing a ex # ys"
          using adjustLoop_shrink[OF pos idx False] flt by simp
        moreover have "specShrink a ex = shrinkRailing a ex"
          using False pos by (simp add: specShrink_eq)
        ultimately show ?thesis using pos rail False by simp
      qed
    qed
  qed
qed

lemma autoAdjust_refines:
  assumes "distinct (map acc_id (accessories cfg))"
  shows "autoAdjustRailingsForPerimeter cfg = autofitSpec cfg"
  using adjustLoop_refines[of "accessories cfg" "[]"] assms
  by (simp add: autoAdjustRailingsForPerimeter_def autofitSpec_def Let_def)


section \<open>Floor area of the pricing engine\<close>



section \<open>What the resolver leaves untouched\<close>

lemma specShrink_fields:
  "acc_id (specShrink a ex) = acc_id a" "acc_type (specShrink a ex) = acc_type a"
  "stairType (specShrink a ex) = stairType a" "width (specShrink a ex) = width a"
  by (simp_all add: specShrink_def Let_def)

lemma specShrink_form:
  "specShrink a ex = a\<lparr>quantity := quantity (specShrink a ex), len := len (specShrink a ex)\<rparr>"
  by (simp add: specShrink_def Let_def)

lemma reduceBackward_nonrailings:
  "filter (\<lambda>a. acc_type a \<noteq> Railings) (reduceBackward ex xs) = filter (\<lambda>a. acc_type a \<noteq> Railings) xs"
  by (induction xs arbitrary: ex) (simp_all add: specShrink_fields)

lemma reduceBackward_ids:
  "distinct (map acc_id xs) \<Longrightarrow> \<exists>P. map acc_id (reduceBackward ex xs) = filter P (map acc_id xs)"
proof (induction xs arbitrary: ex)
  case Nil
  then show ?case by simp
next
  case (Cons a xs)
  from Cons.prems have fresh: "acc_id a \<notin> set (map acc_id xs)" and d: "distinct (map acc_id xs)"
    by simp_all
  have all: "map acc_id (a # xs) = filter (\<lambda>i. True) (map acc_id (a # xs))" by simp
  consider (stop) "\<not> ex > 0" | (keep) "ex > 0" "acc_type a \<noteq> Railings"
    | (remove) "ex > 0" "acc_type a = Railings" "railingTotal a \<le> ex"
    | (shrink) "ex > 0" "acc_type a = Railings" "\<not> railingTotal a \<le> ex" by blast
  then show ?case
  proof cases
    case stop
    then show ?thesis using all by (intro exI[of _ "\<lambda>i. True"]) simp
  next
    case keep
    from Cons.IH[OF d, of ex] obtain P where
      P: "map acc_id (reduceBackward ex xs) = filter P (map acc_id xs)" by blast
    have "filter (\<lambda>i. i = acc_id a \<or> P i) (map acc_id xs) = filter P (map acc_id xs)"
      using fresh by (intro filter_cong refl) (metis (full_types))
    with keep P show ?thesis
      by (intro exI[of _ "\<lambda>i. i = acc_id a \<or> P i"]) simp
  next
    case remove
    from Cons.IH[OF d, of "ex - railingTotal a"] obtain P where
      P: "map acc_id (reduceBackward (ex - railingTotal a) xs) = filter P (map acc_id xs)" by blast
    have "filter (\<lambda>i. i \<noteq> acc_id a \<and> P i) (map acc_id xs) = filter P (map acc_id xs)"
      using fresh by (intro filter_cong refl) (metis (full_types))
    with remove P show ?thesis
      by (intro exI[of _ "\<lambda>i. i \<noteq> acc_id a \<and> P i"]) simp
  next
    case shrink
    then show ?thesis by (intro exI[of _ "\<lambda>i. True"]) (simp add: specShrink_fields)
  qed
qed

lemma filter_mem_filter: "filter (\<lambda>x. x \<in> set (filter P xs)) xs = filter P xs"
  by (intro filter_cong) auto

lemma reduceBackward_changed:
  "set xs \<subseteq> S \<Longrightarrow> length (filter (\<lambda>a. a \<notin> S) (reduceBackward ex xs)) \<le> 1"
proof (induction xs arbitrary: ex)
  case Nil
  then show ?case by simp
next
  case (Cons a xs)
  then have "a \<in> S" "set xs \<subseteq> S" by simp_all
  moreover from this have "filter (\<lambda>a. a \<notin> S) xs = []" by (auto simp: filter_empty_conv)
  ultimately show ?case using Cons.IH[of ] by simp
qed

lemma reduceBackward_changed_form:
  "b \<in> set (reduceBackward ex xs) \<Longrightarrow> b \<notin> set xs \<Longrightarrow>
   \<exists>r\<in>set xs. acc_type r = Railings \<and> b = r\<lparr>quantity := quantity b, len := len b\<rparr>"
proof (induction xs arbitrary: ex)
  case Nil
  then show ?case by simp
next
  case (Cons a xs)
  consider (stop) "\<not> ex > 0" | (keep) "ex > 0" "acc_type a \<noteq> Railings"
    | (remove) "ex > 0" "acc_type a = Railings" "railingTotal a \<le> ex"
    | (shrink) "ex > 0" "acc_type a = Railings" "\<not> railingTotal a \<le> ex" by blast
  then show ?case
  proof cases
    case stop
    with Cons.prems show ?thesis by simp
  next
    case keep
    with Cons.prems have "b \<in> set (reduceBackward ex xs)" "b \<notin> set xs" by auto
    from Cons.IH[OF this] show ?thesis by auto
  next
    case remove
    with Cons.prems have "b \<in> set (reduceBackward (ex - railingTotal a) xs)" "b \<notin> set xs" by auto
    from Cons.IH[OF this] show ?thesis by auto
  next
    case shrink
    with Cons.prems have "b = specShrink a ex" by auto
    then have "b = a\<lparr>quantity := quantity b, len := len b\<rparr>"
      using specShrink_form[of a ex] by simp
    with shrink show ?thesis by auto
  qed
qed

lemma autofitSpec_cases:
  "autofitSpec cfg = accessories cfg \<or>
   (\<exists>ex. autofitSpec cfg = rev (reduceBackward ex (rev (accessories cfg))))"
  by (auto simp: autofitSpec_def Let_def)

lemma autofitSpec_frame:
  assumes "distinct (map acc_id (accessories cfg))"
  shows "filter (\<lambda>a. acc_type a \<noteq> Railings) (autofitSpec cfg)
           = filter (\<lambda>a. acc_type a \<noteq> Railings) (accessories cfg)"
    and "map acc_id (autofitSpec cfg)
           = filter (\<lambda>i. i \<in> set (map acc_id (autofitSpec cfg))) (map acc_id (accessories cfg))"
    and "length (filter (\<lambda>a. a \<notin> set (accessories cfg)) (autofitSpec cfg)) \<le> 1"
    and "\<forall>b\<in>set (autofitSpec cfg). b \<notin> set (accessories cfg) \<longrightarrow>
           (\<exists>r\<in>set (accessories cfg). acc_type r = Railings
               \<and> b = r\<lparr>quantity := quantity b, len := len b\<rparr>)"
proof -
  let ?in = "accessories cfg"
  from autofitSpec_cases[of cfg] consider (same) "autofitSpec cfg = ?in"
    | (reduced) ex where "autofitSpec cfg = rev (reduceBackward ex (rev ?in))" by blast
  note cases = this
  show "filter (\<lambda>a. acc_type a \<noteq> Railings) (autofitSpec cfg)
           = filter (\<lambda>a. acc_type a \<noteq> Railings) ?in"
    using cases
  proof cases
    case same then show ?thesis by simp
  next
    case reduced
    then show ?thesis
      using reduceBackward_nonrailings[of ex "rev ?in"] by (simp add: rev_filter[symmetric])
  qed
  show "map acc_id (autofitSpec cfg)
           = filter (\<lambda>i. i \<in> set (map acc_id (autofitSpec cfg))) (map acc_id ?in)"
    using cases
  proof cases
    case same
    have "filter (\<lambda>i. i \<in> set (map acc_id ?in)) (map acc_id ?in) = map acc_id ?in"
      by (intro filter_True) simp
    with same show ?thesis by simp
  next
    case reduced
    from assms have "distinct (map acc_id (rev ?in))" by (simp add: rev_map[symmetric])
    from reduceBackward_ids[OF this, of ex] obtain P where
      "map acc_id (reduceBackward ex (rev ?in)) = filter P (map acc_id (rev ?in))" by blast
    then have "rev (map acc_id (reduceBackward ex (rev ?in))) = rev (filter P (map acc_id (rev ?in)))"
      by simp
    then have "map acc_id (autofitSpec cfg) = filter P (map acc_id ?in)"
      using reduced by (simp add: rev_map rev_filter)
    then show ?thesis using filter_mem_filter[of P "map acc_id ?in"] by simp
  qed
  show "length (filter (\<lambda>a. a \<notin> set ?in) (autofitSpec cfg)) \<le> 1"
    using cases
  proof cases
    case same then show ?thesis by simp
  next
    case reduced
    have "length (filter (\<lambda>a. a \<notin> set ?in) (reduceBackward ex (rev ?in))) \<le> 1"
      by (rule reduceBackward_changed) simp
    with reduced show ?thesis by (simp add: rev_filter[symmetric])
  qed
  show "\<forall>b\<in>set (autofitSpec cfg). b \<notin> set ?in \<longrightarrow>
           (\<exists>r\<in>set ?in. acc_type r = Railings \<and> b = r\<lparr>quantity := quantity b, len := len b\<rparr>)"
    using cases
  proof cases
    case same then show ?thesis by simp
  next
    case reduced
    show ?thesis
    proof (intro ballI impI)
      fix b assume "b \<in> set (autofitSpec cfg)" "b \<notin> set ?in"
      with reduced have "b \<in> set (reduceBackward ex (rev ?in))" "b \<notin> set (rev ?in)" by simp_all
      from reduceBackward_changed_form[OF this]
      show "\<exists>r\<in>set ?in. acc_type r = Railings \<and> b = r\<lparr>quantity := quantity b, len := len b\<rparr>"
        by simp
    qed
  qed
qed


text \<open>
  C10. On a configuration with unique accessory identifiers the resolver changes railings
  only: the stairs and pallet gates of the output are those of the input, entry for entry and
  in the same order; the identifiers of the output are the surviving identifiers of the input
  in their original order; at most one entry of the output is not an entry of the input, and
  such an entry is a railing of the input with a new quantity and per-unit length (every
  other railing is either absent from the output or in it unchanged).
\<close>

theorem autofit_frame:
  assumes "distinct (map acc_id (accessories cfg))"
  shows "filter (\<lambda>a. acc_type a \<noteq> Railings) (autoAdjustRailingsForPerimeter cfg)
           = filter (\<lambda>a. acc_type a \<noteq> Railings) (accessories cfg)
         \<and> map acc_id (autoAdjustRailingsForPerimeter cfg)
           = filter (\<lambda>i. i \<in> set (map acc_id (autoAdjustRailingsForPerimeter cfg)))
               (map acc_id (accessories cfg))
         \<and> length (filter (\<lambda>a. a \<notin> set (accessories cfg))
                     (autoAdjustRailingsForPerimeter cfg)) \<le> 1
         \<and> (\<forall>b\<in>set (autoAdjustRailingsForPerimeter cfg). b \<notin> set (accessories cfg) \<longrightarrow>
              (\<exists>r\<in>set (accessories cfg). acc_type r = Railings
                  \<and> b = r\<lparr>quantity := quantity b, len := len b\<rparr>))"
  unfolding autoAdjust_refines[OF assms]
  using autofitSpec_frame[OF assms] by blast

theorem autofit_frame_witness:
  "distinct (map acc_id (accessories twoRailings))
   \<and> filter (\<lambda>a. acc_type a \<noteq> Railings) (autoAdjustRailingsForPerimeter twoRailings)
       = [mkGate ''palletGate-2'' 3 W3000mm, mkStair ''stairs-4'' 3 ''Straight 1m'']
   \<and> map acc_id (autoAdjustRailingsForPerimeter twoRailings)
       = [''railings-1'', ''palletGate-2'', ''stairs-4'']
   \<and> length (filter (\<lambda>a. a \<notin> set (accessories twoRailings))
               (autoAdjustRailingsForPerimeter twoRailings)) \<le> 1"
proof -
  have d: "distinct (map acc_id (accessories twoRailings))"
    by (simp add: twoRailings_def example_defs)
  have out: "autoAdjustRailingsForPerimeter twoRailings =
      [mkRailing ''railings-1'' 1 8, mkGate ''palletGate-2'' 3 W3000mm,
       mkStair ''stairs-4'' 3 ''Straight 1m'']"
    by code_simp
  have "map acc_id (autoAdjustRailingsForPerimeter twoRailings)
       = [''railings-1'', ''palletGate-2'', ''stairs-4'']"
    unfolding out by (simp add: example_defs)
  moreover have "filter (\<lambda>a. acc_type a \<noteq> Railings) (accessories twoRailings)
       = [mkGate ''palletGate-2'' 3 W3000mm, mkStair ''stairs-4'' 3 ''Straight 1m'']"
    by (simp add: twoRailings_def example_defs)
  ultimately show ?thesis using autofit_frame[OF d] d by simp
qed


section \<open>Entries other than railings\<close>

lemma num_or_Some_zero [simp]: "num_or (Some v) 0 = v"
  by (simp add: num_or_def)



lemma autofitSpec_nonrailings:
  "filter (\<lambda>a. acc_type a \<noteq> Railings) (autofitSpec cfg)
     = filter (\<lambda>a. acc_type a \<noteq> Railings) (accessories cfg)"
  using reduceBackward_nonrailings[of _ "rev (accessories cfg)"]
  by (simp add: autofitSpec_def Let_def rev_filter[symmetric])

section \<open>The list a patch produces\<close>



lemma applyUpdates_keeps:
  "upd_type u = None \<Longrightarrow> acc_type (applyUpdates a u) = acc_type a"
  "upd_id u = None \<Longrightarrow> acc_id (applyUpdates a u) = acc_id a"
  by (simp_all add: applyUpdates_def)

lemma patch_ids:
  "upd_id u = None \<Longrightarrow> map acc_id (patchAccessories accs i u) = map acc_id accs"
  by (simp add: patchAccessories_def applyUpdates_keeps)

section \<open>The resolver in binary64 arithmetic\<close>

text \<open>
  Some values of the rounding: \<open>0.1\<close>, \<open>0.1 + 0.2 = 0.30000000000000004\<close>,
  \<open>8.6 + 5.8 = 14.399999999999999\<close>, \<open>1 / 3\<close>, two ties above \<open>2 ^ 53\<close> that go to the
  even neighbour, \<open>3.0 * 1.4 = 4.199999999999999\<close>, and a negative number.
\<close>

lemma b64_examples:
  "b64 (1 / 10) = 3602879701896397 / 36028797018963968"
  "add64 (b64 (1 / 10)) (b64 (2 / 10)) = 1351079888211149 / 4503599627370496"
  "add64 (b64 (86 / 10)) (b64 (58 / 10)) = 2026619832316723 / 140737488355328"
  "b64 (1 / 3) = 6004799503160661 / 18014398509481984"
  "b64 9007199254740993 = 9007199254740992"
  "b64 9007199254740995 = 9007199254740996"
  "mul64 3 (b64 (14 / 10)) = 1182194902184755 / 281474976710656"
  "b64 (- (1 / 10)) = - b64 (1 / 10)"
  by code_simp+

lemma b64_zero [simp]: "b64 0 = 0"
  by (simp add: b64_def)

lemma mul64_zero_right [simp]: "mul64 q 0 = 0"
  by (simp add: mul64_def)

lemma adjustLoop_b64_stop: "\<not> ex > 0 \<Longrightarrow> adjustLoop_b64 rs ex adj = adj"
  by (cases rs) simp_all

lemma adjustLoop_b64_remove:
  "ex > 0 \<Longrightarrow> findIndex (\<lambda>a. acc_id a = acc_id r) adj = Some i \<Longrightarrow> railingTotal_b64 r \<le> ex \<Longrightarrow>
   adjustLoop_b64 (r # rs) ex adj = adjustLoop_b64 rs (sub64 ex (railingTotal_b64 r)) (splice1 i adj)"
  by simp

lemma adjustLoop_b64_shrink:
  "ex > 0 \<Longrightarrow> findIndex (\<lambda>a. acc_id a = acc_id r) adj = Some i \<Longrightarrow> \<not> railingTotal_b64 r \<le> ex \<Longrightarrow>
   adjustLoop_b64 (r # rs) ex adj = adj[i := shrinkRailing_b64 r ex]"
  by (simp add: adjustLoop_b64_stop)

lemma adjustLoop_b64_Nil [simp]: "adjustLoop_b64 [] ex adj = adj"
  by simp

declare adjustLoop_b64.simps [simp del]

lemma specShrink_b64_eq:
  assumes "railingTotal_b64 r > ex" "ex > 0"
  shows "specShrink_b64 r ex = shrinkRailing_b64 r ex"
proof -
  from assms have pos: "railingTotal_b64 r \<noteq> 0" by auto
  have "len r \<noteq> None"
  proof
    assume "len r = None"
    then have "railingTotal_b64 r = 0" by (simp add: railingTotal_b64_def num_or_def)
    with pos show False by simp
  qed
  then obtain l where l1: "len r = Some l" by auto
  have "l \<noteq> 0"
  proof
    assume "l = 0"
    with l1 have "railingTotal_b64 r = 0" by (simp add: railingTotal_b64_def num_or_def)
    with pos show False by simp
  qed
  with l1 have l: "len r = Some l" "l \<noteq> 0" by simp_all
  then show ?thesis
    by (simp add: specShrink_b64_def shrinkRailing_b64_def railingTotal_b64_def num_or_def Let_def
        one_le_floor_rat)
qed

lemma reduceBackward_b64_stop: "\<not> ex > 0 \<Longrightarrow> reduceBackward_b64 ex xs = xs"
  by (cases xs) simp_all

lemma adjustLoop_b64_refines:
  "distinct (map acc_id (xs @ ys)) \<Longrightarrow>
   adjustLoop_b64 (rev (filter (\<lambda>a. acc_type a = Railings) xs)) ex (xs @ ys)
     = rev (reduceBackward_b64 ex (rev xs)) @ ys"
proof (induction xs arbitrary: ex ys rule: rev_induct)
  case Nil
  then show ?case by simp
next
  case (snoc a xs)
  from snoc.prems have d: "distinct (map acc_id (xs @ a # ys))" by simp
  then have "acc_id a \<notin> acc_id ` set xs" by auto
  then have fresh: "\<forall>x\<in>set xs. \<not> acc_id x = acc_id a" by (metis imageI)
  show ?case
  proof (cases "acc_type a = Railings")
    case False
    have "adjustLoop_b64 (rev (filter (\<lambda>a. acc_type a = Railings) xs)) ex (xs @ a # ys)
            = rev (reduceBackward_b64 ex (rev xs)) @ a # ys"
      using snoc.IH[OF d] .
    with False show ?thesis
      by (simp add: reduceBackward_b64_stop)
  next
    case rail: True
    have idx: "findIndex (\<lambda>x. acc_id x = acc_id a) (xs @ a # ys) = Some (length xs)"
      using fresh by (simp add: findIndex_append_first)
    have flt: "rev (filter (\<lambda>a. acc_type a = Railings) (xs @ [a]))
                = a # rev (filter (\<lambda>a. acc_type a = Railings) xs)"
      using rail by simp
    show ?thesis
    proof (cases "ex > 0")
      case False
      then show ?thesis by (simp add: adjustLoop_b64_stop reduceBackward_b64_stop)
    next
      case pos: True
      show ?thesis
      proof (cases "railingTotal_b64 a \<le> ex")
        case True
        from d have d': "distinct (map acc_id (xs @ ys))" by simp
        have "adjustLoop_b64 (rev (filter (\<lambda>a. acc_type a = Railings) (xs @ [a]))) ex
                ((xs @ [a]) @ ys)
                = adjustLoop_b64 (rev (filter (\<lambda>a. acc_type a = Railings) xs))
                    (sub64 ex (railingTotal_b64 a)) (xs @ ys)"
          using adjustLoop_b64_remove[OF pos idx True] flt by (simp add: splice1_middle)
        also have "\<dots> = rev (reduceBackward_b64 (sub64 ex (railingTotal_b64 a)) (rev xs)) @ ys"
          using snoc.IH[OF d'] .
        finally show ?thesis using pos rail True by simp
      next
        case False
        have "adjustLoop_b64 (rev (filter (\<lambda>a. acc_type a = Railings) (xs @ [a]))) ex
                ((xs @ [a]) @ ys)
                = xs @ shrinkRailing_b64 a ex # ys"
          using adjustLoop_b64_shrink[OF pos idx False] flt by simp
        moreover have "specShrink_b64 a ex = shrinkRailing_b64 a ex"
          using False pos by (simp add: specShrink_b64_eq)
        ultimately show ?thesis using pos rail False by simp
      qed
    qed
  qed
qed

lemma autoAdjust_b64_refines:
  assumes "distinct (map acc_id (accessories cfg))"
  shows "autoAdjustRailingsForPerimeter_b64 cfg = autofitSpec_b64 cfg"
  using adjustLoop_b64_refines[of "accessories cfg" "[]"] assms
  by (simp add: autoAdjustRailingsForPerimeter_b64_def autofitSpec_b64_def Let_def)






subsection \<open>The binary64 loop implements the contract of the specification\<close>

text \<open>
  C4. In the arithmetic of the code, on a configuration with unique accessory identifiers,
  the resolver computes exactly the contract of the specification: nothing changes when the
  railings fit; otherwise the excess is absorbed from the most recently added railing
  backward, removing a railing whose whole consumed length is at most the remaining excess
  and shrinking the first one that is longer (per-unit length rounded down at the same
  quantity, or, below 1 m per unit, the quantity reduced and the length floored at 1). One
  entry of 40 m on the platform with 26.8 m of available perimeter is reduced to 26 m.
\<close>

theorem autofit_follows_contract:
  "(distinct (map acc_id (accessories cfg)) \<longrightarrow>
      autoAdjustRailingsForPerimeter_b64 cfg = autofitSpec_b64 cfg)
   \<and> calculateAvailablePerimeter_b64 fortyMetres = b64 (268 / 10)
   \<and> calculateTotalRailingLength_b64 (accessories fortyMetres) = 40
   \<and> autoAdjustRailingsForPerimeter_b64 fortyMetres = [mkRailing ''railings-1'' 1 26]"
proof -
  have "calculateAvailablePerimeter_b64 fortyMetres = b64 (268 / 10)" by code_simp
  moreover have "calculateTotalRailingLength_b64 (accessories fortyMetres) = 40" by code_simp
  moreover have "autoAdjustRailingsForPerimeter_b64 fortyMetres = [mkRailing ''railings-1'' 1 26]"
    by code_simp
  ultimately show ?thesis using autoAdjust_b64_refines[of cfg] by blast
qed

theorem autofit_follows_contract_witness:
  "distinct (map acc_id (accessories vinkelThirteen))
   \<and> autoAdjustRailingsForPerimeter_b64 vinkelThirteen = autofitSpec_b64 vinkelThirteen
   \<and> autofitSpec_b64 vinkelThirteen
       = [mkStair ''stairs-1'' 1 ''Vinkel 1m'', mkRailing ''railings-2'' 1 11]
   \<and> distinct (map acc_id (accessories threeGates))
   \<and> autoAdjustRailingsForPerimeter_b64 threeGates = autofitSpec_b64 threeGates
   \<and> autofitSpec_b64 threeGates = accessories threeGatesOnce"
proof -
  have d: "distinct (map acc_id (accessories vinkelThirteen))"
    by (simp add: vinkelThirteen_def example_defs)
  have e: "autofitSpec_b64 vinkelThirteen
       = [mkStair ''stairs-1'' 1 ''Vinkel 1m'', mkRailing ''railings-2'' 1 11]"
    by code_simp
  have d3: "distinct (map acc_id (accessories threeGates))"
    by (simp add: threeGates_def example_defs)
  have e3: "autofitSpec_b64 threeGates = accessories threeGatesOnce"
    by code_simp
  from autofit_follows_contract[of vinkelThirteen] autofit_follows_contract[of threeGates]
    d e d3 e3 show ?thesis by simp
qed




section \<open>Railing length after a mutation\<close>


















section \<open>Rejected mutations\<close>



lemma find_first_unique:
  "\<forall>b\<in>set pre. \<not> P b \<Longrightarrow> P a \<Longrightarrow> find P (pre @ a # post) = Some a"
  by (induction pre) simp_all

lemma vinkel_via_nonrailing_filter:
  "filter isVinkelStair xs = filter isVinkelStair (filter (\<lambda>a. acc_type a \<noteq> Railings) xs)"
  by (induction xs) (auto simp: isVinkelStair_def)

lemma second_vinkel_rejected:
  assumes d: "distinct (map acc_id (accessories cfg))"
    and u: "upd_id u = None" "upd_type u = None"
    and one: "length (filter isVinkelStair (accessories cfg)) \<ge> 1"
    and more: "length (filter isVinkelStair (patchAccessories (accessories cfg) i u))
                 > length (filter isVinkelStair (accessories cfg))"
  shows "updateAccessory cfg i u = Inl OnlyOneVinkel"
proof -
  have "\<exists>a\<in>set (accessories cfg). acc_id a = i"
  proof (rule ccontr)
    assume "\<not> (\<exists>a\<in>set (accessories cfg). acc_id a = i)"
    then have "patchAccessories (accessories cfg) i u = accessories cfg"
      by (simp add: patchAccessories_def map_idI)
    with more show False by simp
  qed
  then obtain a where a: "a \<in> set (accessories cfg)" "acc_id a = i" by blast
  from a(1) obtain pre post where split: "accessories cfg = pre @ a # post"
    by (auto simp: in_set_conv_decomp)
  with d a(2) have "i \<notin> acc_id ` set pre" "i \<notin> acc_id ` set post" by auto
  then have other: "\<forall>b\<in>set pre. acc_id b \<noteq> i" "\<forall>b\<in>set post. acc_id b \<noteq> i"
    by (metis imageI)+
  then have "map (\<lambda>b. if acc_id b = i then applyUpdates b u else b) pre = pre"
    "map (\<lambda>b. if acc_id b = i then applyUpdates b u else b) post = post"
    by (simp_all add: map_idI)
  then have p: "patchAccessories (accessories cfg) i u = pre @ applyUpdates a u # post"
    using a(2) by (simp add: patchAccessories_def split)
  let ?a' = "applyUpdates a u"
  from more have "length (filter isVinkelStair (pre @ ?a' # post))
      > length (filter isVinkelStair (accessories cfg))"
    by (simp only: p)
  then have va: "isVinkelStair ?a'" "\<not> isVinkelStair a"
    unfolding split by (auto split: if_splits)
  then have st: "acc_type a = Stairs" using u(2)
    by (simp add: isVinkelStair_def applyUpdates_def)
  from va st obtain s where s: "upd_stairType u = Some s" "str_includes s ''Vinkel''"
    by (cases "upd_stairType u")
       (auto simp: isVinkelStair_def stairType_includes_def applyUpdates_def u)
  then have ne: "s \<noteq> []" by auto
  from one va(2) have "filter isVinkelStair (pre @ post) \<noteq> []"
    unfolding split by auto
  then obtain v vs where "filter isVinkelStair (pre @ post) = v # vs"
    using list.exhaust by blast
  then have "v \<in> set (filter isVinkelStair (pre @ post))"
    by (metis list.set_intros(1))
  then have v: "v \<in> set pre \<union> set post" "isVinkelStair v" by auto
  then have "acc_id v \<noteq> i" using other by auto
  with v have "v \<in> set (filter (\<lambda>a. isVinkelStair a \<and> acc_id a \<noteq> i) (accessories cfg))"
    unfolding split by auto
  then have cur: "length (filter (\<lambda>a. isVinkelStair a \<and> acc_id a \<noteq> i) (accessories cfg)) > 0"
    by (rule length_pos_if_in_set)
  have f: "find (\<lambda>a. acc_id a = i) (accessories cfg) = Some a"
    unfolding split using other(1) a(2) by (intro find_first_unique) simp_all
  show ?thesis
    using f st s ne cur by (simp add: updateAccessory_def Let_def)
qed

lemma add_keeps_vinkel:
  assumes d: "distinct (map acc_id (accessories cfg))"
    and fresh: "type_name ty @ ''-'' @ now \<notin> set (map acc_id (accessories cfg))"
    and res: "addAccessory cfg ty now = Inr cfg'"
  shows "filter isVinkelStair (accessories cfg') = filter isVinkelStair (accessories cfg)"
proof -
  let ?new = "\<lparr>acc_id = type_name ty @ ''-'' @ now, acc_type = ty, quantity = 1,
                stairType = (if ty = Stairs then Some ''Straight 1m'' else None),
                len = (if ty = Railings then Some 10 else None),
                width = (if ty = PalletGate then Some W2000mm else None)\<rparr>"
  let ?c1 = "cfg\<lparr>accessories := accessories cfg @ [?new]\<rparr>"
  have nv: "\<not> isVinkelStair ?new"
    by (simp add: isVinkelStair_def stairType_includes_def)
  have d1: "distinct (map acc_id (accessories ?c1))" using d fresh by simp
  from res have "accessories cfg' = accessories ?c1
      \<or> accessories cfg' = autoAdjustRailingsForPerimeter ?c1"
    by (auto simp: addAccessory_def Let_def split: if_splits)
  then have "filter (\<lambda>a. acc_type a \<noteq> Railings) (accessories cfg')
      = filter (\<lambda>a. acc_type a \<noteq> Railings) (accessories ?c1)"
    using autofitSpec_nonrailings[of ?c1] autoAdjust_refines[OF d1] by auto
  then have "filter isVinkelStair (accessories cfg') = filter isVinkelStair (accessories ?c1)"
    using vinkel_via_nonrailing_filter[of "accessories cfg'"]
      vinkel_via_nonrailing_filter[of "accessories ?c1"] by simp
  with nv show ?thesis by simp
qed

text \<open>
  C6. On a configuration with unique identifiers that already contains a corner (Vinkel)
  stair: an update (which does not patch identifier or type) whose patched accessory list
  would hold more corner stairs than before is rejected by \<open>updateAccessory\<close>; an
  \<open>addAccessory\<close> with a fresh identifier never changes the corner stairs; and the two
  quantity buttons of a corner stair are disabled, so a click on them changes nothing.
\<close>

theorem corner_stair_guarded:
  assumes "distinct (map acc_id (accessories cfg))"
    and "list_ex isVinkelStair (accessories cfg)"
  shows "(\<forall>i u. upd_id u = None \<longrightarrow> upd_type u = None \<longrightarrow>
            length (filter isVinkelStair (patchAccessories (accessories cfg) i u))
              > length (filter isVinkelStair (accessories cfg)) \<longrightarrow>
            updateAccessory cfg i u = Inl OnlyOneVinkel)
       \<and> (\<forall>ty now cfg'. type_name ty @ ''-'' @ now \<notin> set (map acc_id (accessories cfg)) \<longrightarrow>
            addAccessory cfg ty now = Inr cfg' \<longrightarrow>
            filter isVinkelStair (accessories cfg') = filter isVinkelStair (accessories cfg))
       \<and> (\<forall>a\<in>set (accessories cfg). isVinkelStair a \<longrightarrow>
            stairsMinusClick cfg a = Inl ButtonDisabled
            \<and> stairsPlusClick cfg a = Inl ButtonDisabled)"
proof -
  from assms(2) have "filter isVinkelStair (accessories cfg) \<noteq> []"
    by (simp add: list_ex_filter_nonempty)
  then have one: "length (filter isVinkelStair (accessories cfg)) \<ge> 1"
    by (cases "filter isVinkelStair (accessories cfg)") simp_all
  have buttons: "\<forall>a\<in>set (accessories cfg). isVinkelStair a \<longrightarrow>
            stairsMinusClick cfg a = Inl ButtonDisabled
            \<and> stairsPlusClick cfg a = Inl ButtonDisabled"
    by (simp add: isVinkelStair_def stairsMinusClick_def stairsPlusClick_def)
  show ?thesis
    using second_vinkel_rejected[OF assms(1) _ _ one] add_keeps_vinkel[OF assms(1)] buttons
    by blast
qed

theorem corner_stair_guarded_witness:
  "distinct (map acc_id (accessories cornerAndStraight))
   \<and> list_ex isVinkelStair (accessories cornerAndStraight)
   \<and> updateAccessory cornerAndStraight ''stairs-2''
        (no_updates\<lparr>upd_stairType := Some ''Vinkel 1.2m''\<rparr>) = Inl OnlyOneVinkel
   \<and> stairsPlusClick cornerAndStraight (mkStair ''stairs-1'' 1 ''Vinkel 1m'') = Inl ButtonDisabled
   \<and> stairsMinusClick cornerAndStraight (mkStair ''stairs-1'' 1 ''Vinkel 1m'') = Inl ButtonDisabled"
proof -
  have d: "distinct (map acc_id (accessories cornerAndStraight))"
    by (simp add: cornerAndStraight_def example_defs)
  have e: "list_ex isVinkelStair (accessories cornerAndStraight)"
    by code_simp
  note inst = corner_stair_guarded[OF d e]
  have u: "upd_id (no_updates\<lparr>upd_stairType := Some ''Vinkel 1.2m''\<rparr>) = None"
    "upd_type (no_updates\<lparr>upd_stairType := Some ''Vinkel 1.2m''\<rparr>) = None"
    by (simp_all add: no_updates_def)
  have n1: "length (filter isVinkelStair (accessories cornerAndStraight)) = 1"
    by code_simp
  have n2: "length (filter isVinkelStair (patchAccessories (accessories cornerAndStraight)
      ''stairs-2'' (no_updates\<lparr>upd_stairType := Some ''Vinkel 1.2m''\<rparr>))) = 2"
    by code_simp
  have more: "length (filter isVinkelStair (patchAccessories (accessories cornerAndStraight)
      ''stairs-2'' (no_updates\<lparr>upd_stairType := Some ''Vinkel 1.2m''\<rparr>)))
      > length (filter isVinkelStair (accessories cornerAndStraight))"
    unfolding n1 n2 by simp
  have rej: "updateAccessory cornerAndStraight ''stairs-2''
        (no_updates\<lparr>upd_stairType := Some ''Vinkel 1.2m''\<rparr>) = Inl OnlyOneVinkel"
    using inst u more by blast
  have m: "mkStair ''stairs-1'' 1 ''Vinkel 1m'' \<in> set (accessories cornerAndStraight)"
    by (simp add: cornerAndStraight_def example_defs)
  have v: "isVinkelStair (mkStair ''stairs-1'' 1 ''Vinkel 1m'')"
    by code_simp
  have "stairsPlusClick cornerAndStraight (mkStair ''stairs-1'' 1 ''Vinkel 1m'') = Inl ButtonDisabled"
    "stairsMinusClick cornerAndStraight (mkStair ''stairs-1'' 1 ''Vinkel 1m'') = Inl ButtonDisabled"
    using inst m v by blast+
  with d e rej show ?thesis by simp
qed


section \<open>The perimeter walker on the front edge\<close>

text \<open>
  C5 at a concrete configuration: one stair (occupied range \<open>[-0.5, 0.5]\<close>), one pallet gate
  of 2 m (occupied range \<open>[-1, 1]\<close>) and one railing of 10 m on the 9.4 m by 4 m platform.
  The second placement on the front edge is cut at the start of the stair range, the first
  range in the scanned list that the chunk crosses, and covers \<open>[-1.7, -0.5]\<close>, which lies
  partly inside the pallet gate's range.
\<close>

theorem walker_places_railing_in_gate_range:
  "modelRailingPlacements stairGateRailing (mkRailing ''railings-3'' 1 10) =
     [\<lparr>p_edge = Front, p_position = (- (16 / 5), 71 / 20, - 2), p_segmentLen = 3\<rparr>,
      \<lparr>p_edge = Front, p_position = (- (11 / 10), 71 / 20, - 2), p_segmentLen = 6 / 5\<rparr>,
      \<lparr>p_edge = Front, p_position = (251 / 100, 71 / 20, - 2), p_segmentLen = 3\<rparr>,
      \<lparr>p_edge = Front, p_position = (871 / 200, 71 / 20, - 2), p_segmentLen = 69 / 100\<rparr>,
      \<lparr>p_edge = Right, p_position = (47 / 10, 71 / 20, - (189 / 200)),
       p_segmentLen = 211 / 100\<rparr>]
   \<and> getStairsXRanges (modelStairsQuantity (accessories stairGateRailing)) = [(- (1 / 2), 1 / 2)]
   \<and> getPalletGatesXRanges (modelPalletGatesWidths (accessories stairGateRailing)) = [(- 1, 1)]
   \<and> placementXInterval
        \<lparr>p_edge = Front, p_position = (- (11 / 10), 71 / 20, - 2), p_segmentLen = 6 / 5\<rparr>
       = (- (17 / 10), - (1 / 2))
   \<and> intervalsOverlap (- (17 / 10), - (1 / 2)) (- 1, 1)"
proof -
  have "modelRailingPlacements stairGateRailing (mkRailing ''railings-3'' 1 10) =
     [\<lparr>p_edge = Front, p_position = (- (16 / 5), 71 / 20, - 2), p_segmentLen = 3\<rparr>,
      \<lparr>p_edge = Front, p_position = (- (11 / 10), 71 / 20, - 2), p_segmentLen = 6 / 5\<rparr>,
      \<lparr>p_edge = Front, p_position = (251 / 100, 71 / 20, - 2), p_segmentLen = 3\<rparr>,
      \<lparr>p_edge = Front, p_position = (871 / 200, 71 / 20, - 2), p_segmentLen = 69 / 100\<rparr>,
      \<lparr>p_edge = Right, p_position = (47 / 10, 71 / 20, - (189 / 200)),
       p_segmentLen = 211 / 100\<rparr>]"
    by code_simp
  moreover have "getStairsXRanges (modelStairsQuantity (accessories stairGateRailing))
      = [(- (1 / 2), 1 / 2)]"
    by code_simp
  moreover have "getPalletGatesXRanges (modelPalletGatesWidths (accessories stairGateRailing))
      = [(- 1, 1)]"
    by code_simp
  moreover have "placementXInterval
        \<lparr>p_edge = Front, p_position = (- (11 / 10), 71 / 20, - 2), p_segmentLen = 6 / 5\<rparr>
       = (- (17 / 10), - (1 / 2))"
    by (simp add: placementXInterval_def xOf_def)
  moreover have "intervalsOverlap (- (17 / 10), - (1 / 2)) (- 1, 1)"
    by (simp add: intervalsOverlap_def)
  ultimately show ?thesis by blast
qed


section \<open>Remarks on the revision with the label \<open>Corner stairs\<close>\<close>

text \<open>
  In that revision the available perimeter with a corner stair is the perimeter rounded down,
  where the perimeter adds 2.8 m (not 5.8 m) for the platform extension: 29 m on the default
  platform.
\<close>

lemma available_perimeter_corner_revision:
  assumes "list_ex isCornerStair (accessories cfg)"
  shows "calculateAvailablePerimeterCorner cfg =
           max 0 (of_int \<lfloor>2 * (cfg_length cfg / 1000 + cfg_width cfg / 1000) + 28 / 10\<rfloor>)"
  using assms
  by (simp add: calculateAvailablePerimeterCorner_def calculatePerimeterCorner_def
      REPOS_DEPTH_def Let_def)

lemma available_perimeter_corner_revision_example:
  "calculateAvailablePerimeterCorner cornerOnly = 29"
  by code_simp

end
